theory Spec2Isabelle
  imports Complex_Main
begin

section \<open>JavaScript numbers\<close>

text \<open>
  The engine computes on JavaScript numbers. They are modelled as exact reals extended
  with the three special values of IEEE arithmetic, so that a division by zero, an
  undefined array element or a \<open>NaN\<close> sample is a value of the model and every
  comparison with \<open>NaN\<close> is false, as in the source. Rounding is not modelled, and
  the sign of zero is not modelled (a zero divisor counts as \<open>+0\<close>).
\<close>

datatype jsnum = Fin real | PInf | NInf | NaN

fun is_finite :: "jsnum \<Rightarrow> bool" where
  "is_finite (Fin a) = True"
| "is_finite _ = False"

fun js_neg :: "jsnum \<Rightarrow> jsnum" where
  "js_neg (Fin a) = Fin (- a)"
| "js_neg PInf = NInf"
| "js_neg NInf = PInf"
| "js_neg NaN = NaN"

fun js_add :: "jsnum \<Rightarrow> jsnum \<Rightarrow> jsnum" where
  "js_add (Fin a) (Fin b) = Fin (a + b)"
| "js_add NaN _ = NaN"
| "js_add _ NaN = NaN"
| "js_add PInf NInf = NaN"
| "js_add NInf PInf = NaN"
| "js_add PInf _ = PInf"
| "js_add _ PInf = PInf"
| "js_add NInf _ = NInf"
| "js_add _ NInf = NInf"

definition js_sub :: "jsnum \<Rightarrow> jsnum \<Rightarrow> jsnum" where
  "js_sub a b = js_add a (js_neg b)"

text \<open>An infinity scaled by a real: the sign rule of IEEE multiplication.\<close>

definition inf_times :: "bool \<Rightarrow> real \<Rightarrow> jsnum" where
  "inf_times positive a =
     (if a = 0 then NaN else if (0 < a) = positive then PInf else NInf)"

fun js_mul :: "jsnum \<Rightarrow> jsnum \<Rightarrow> jsnum" where
  "js_mul (Fin a) (Fin b) = Fin (a * b)"
| "js_mul NaN _ = NaN"
| "js_mul _ NaN = NaN"
| "js_mul (Fin a) PInf = inf_times True a"
| "js_mul (Fin a) NInf = inf_times False a"
| "js_mul PInf (Fin b) = inf_times True b"
| "js_mul NInf (Fin b) = inf_times False b"
| "js_mul PInf PInf = PInf"
| "js_mul NInf NInf = PInf"
| "js_mul PInf NInf = NInf"
| "js_mul NInf PInf = NInf"

fun js_div :: "jsnum \<Rightarrow> jsnum \<Rightarrow> jsnum" where
  "js_div (Fin a) (Fin b) = (if b = 0 then inf_times True a else Fin (a / b))"
| "js_div NaN _ = NaN"
| "js_div _ NaN = NaN"
| "js_div (Fin a) _ = Fin 0"
| "js_div PInf (Fin b) = (if b < 0 then NInf else PInf)"
| "js_div NInf (Fin b) = (if b < 0 then PInf else NInf)"
| "js_div _ _ = NaN"

text \<open>The comparison operators \<open><\<close>, \<open>>\<close>, \<open><=\<close> and \<open>>=\<close>: false on \<open>NaN\<close>.\<close>

fun js_lt :: "jsnum \<Rightarrow> jsnum \<Rightarrow> bool" where
  "js_lt (Fin a) (Fin b) = (a < b)"
| "js_lt NaN _ = False"
| "js_lt _ NaN = False"
| "js_lt PInf _ = False"
| "js_lt _ NInf = False"
| "js_lt _ _ = True"

definition js_gt :: "jsnum \<Rightarrow> jsnum \<Rightarrow> bool" where
  "js_gt a b = js_lt b a"

definition js_le :: "jsnum \<Rightarrow> jsnum \<Rightarrow> bool" where
  "js_le a b = (a \<noteq> NaN \<and> b \<noteq> NaN \<and> \<not> js_lt b a)"

definition js_ge :: "jsnum \<Rightarrow> jsnum \<Rightarrow> bool" where
  "js_ge a b = js_le b a"

text \<open>\<open>Math.abs\<close>, \<open>Math.sqrt\<close>, \<open>Math.log10\<close>, \<open>Math.cos\<close>, \<open>Math.floor\<close>,
  and the two-argument \<open>Math.max\<close> and \<open>Math.min\<close>.\<close>

fun js_abs :: "jsnum \<Rightarrow> jsnum" where
  "js_abs (Fin a) = Fin \<bar>a\<bar>"
| "js_abs NaN = NaN"
| "js_abs _ = PInf"

fun js_sqrt :: "jsnum \<Rightarrow> jsnum" where
  "js_sqrt (Fin a) = (if a < 0 then NaN else Fin (sqrt a))"
| "js_sqrt PInf = PInf"
| "js_sqrt _ = NaN"

fun js_log10 :: "jsnum \<Rightarrow> jsnum" where
  "js_log10 (Fin a) = (if a < 0 then NaN else if a = 0 then NInf else Fin (log 10 a))"
| "js_log10 PInf = PInf"
| "js_log10 _ = NaN"

fun js_cos :: "jsnum \<Rightarrow> jsnum" where
  "js_cos (Fin a) = Fin (cos a)"
| "js_cos _ = NaN"

fun js_floor :: "jsnum \<Rightarrow> jsnum" where
  "js_floor (Fin a) = Fin (of_int \<lfloor>a\<rfloor>)"
| "js_floor x = x"

definition js_max :: "jsnum \<Rightarrow> jsnum \<Rightarrow> jsnum" where
  "js_max a b = (if a = NaN \<or> b = NaN then NaN else if js_lt a b then b else a)"

definition js_min :: "jsnum \<Rightarrow> jsnum \<Rightarrow> jsnum" where
  "js_min a b = (if a = NaN \<or> b = NaN then NaN else if js_lt b a then b else a)"

text \<open>
  Option and profile parameter values are numbers read from a JSON request, hence finite
  (JSON has no \<open>NaN\<close> or infinity); a field may be missing. \<open>x || d\<close> on such a
  field: a missing or zero \<open>x\<close> is falsy and gives \<open>d\<close>.
\<close>

fun js_or :: "real option \<Rightarrow> real \<Rightarrow> real" where
  "js_or None d = d"
| "js_or (Some x) d = (if x = 0 then d else x)"

text \<open>A destructuring default \<open>{ x = d }\<close>: only a missing \<open>x\<close> takes the default.\<close>

fun js_default :: "'a option \<Rightarrow> 'a \<Rightarrow> 'a" where
  "js_default None d = d"
| "js_default (Some x) d = x"

text \<open>
  \<open>array[i]\<close> used as a number: an index that is not an integer inside the array reads
  \<open>undefined\<close>, which arithmetic turns into \<open>NaN\<close>.
\<close>

fun js_index :: "jsnum list \<Rightarrow> jsnum \<Rightarrow> jsnum" where
  "js_index xs (Fin r) =
     (if r = of_int \<lfloor>r\<rfloor> \<and> 0 \<le> r \<and> nat \<lfloor>r\<rfloor> < length xs then xs ! nat \<lfloor>r\<rfloor> else NaN)"
| "js_index xs _ = NaN"

text \<open>
  \<open>array.slice(start, end)\<close> with integer arguments: a negative index counts from the
  end, both are clamped to the array, and an empty range gives the empty array.
\<close>

definition js_trunc :: "real \<Rightarrow> int" where
  "js_trunc x = (if x < 0 then \<lceil>x\<rceil> else \<lfloor>x\<rfloor>)"

definition slice :: "'a list \<Rightarrow> int \<Rightarrow> int \<Rightarrow> 'a list" where
  "slice xs start stop =
     (let len = int (length xs);
          k = (if start < 0 then max (len + start) 0 else min start len);
          final = (if stop < 0 then max (len + stop) 0 else min stop len)
      in take (nat (final - k)) (drop (nat k) xs))"

section \<open>Data model\<close>

text \<open>
  Record fields keep the names of the source's object keys, with a prefix where a key is
  also the name of a local variable or of a key of another object: \<open>opt_\<close> for the
  options, \<open>param_\<close> for profile parameters, \<open>section_\<close> for quiet and loud
  sections, \<open>region_\<close> for regions.
\<close>

datatype js_error = JsError (error_name: string) (message: string)

datatype profile_type = Quiet | Intensity | Transition | Custom

record profile_parameters =
  param_windowSize :: "real option"
  param_maxAmplitude :: "real option"
  param_minAmplitude :: "real option"
  param_sensitivity :: "real option"

record profile =
  profile_id :: string
  profile_type :: profile_type
  parameters :: profile_parameters

record options =
  opt_windowSize :: "real option"
  opt_fftSize :: "real option"
  opt_sampleRate :: "real option"
  opt_threshold :: "real option"
  opt_minDuration :: "real option"
  opt_profiles :: "profile list option"

definition no_options :: options where
  "no_options = \<lparr> opt_windowSize = None, opt_fftSize = None, opt_sampleRate = None,
     opt_threshold = None, opt_minDuration = None, opt_profiles = None \<rparr>"

record amplitude =
  rms :: jsnum
  peak :: jsnum
  average :: jsnum
  dynamicRange :: jsnum
  crestFactor :: jsnum
  zeroCrossings :: nat

record frequency_entry =
  frequency :: jsnum
  magnitude :: jsnum

record frequency_bands =
  bass :: jsnum
  mid :: jsnum
  treble :: jsnum

record spectral =
  spectralCentroid :: jsnum
  spectralRolloff :: jsnum
  spectralFlux :: jsnum
  dominantFrequencies :: "frequency_entry list"
  frequencyBands :: frequency_bands

record pattern_section =
  section_start :: jsnum
  section_end :: jsnum
  section_rms :: jsnum

record transition =
  time :: jsnum
  change :: jsnum
  direction :: string

record patterns =
  quietSections :: "pattern_section list"
  loudSections :: "pattern_section list"
  transitions :: "transition list"
  repetitivePatterns :: "unit list"

text \<open>
  \<open>uuidv4()\<close> is the next element of a sequence of identifiers given by the
  environment; the state of the generator is the position in the sequence.
\<close>

type_synonym uuid = nat

record region =
  region_id :: uuid
  region_start :: jsnum
  region_end :: jsnum
  region_profile :: string
  confidence :: jsnum
  data :: amplitude

text \<open>
  The transform \<open>fftjs.fft\<close> belongs to an external package: it is a parameter of
  the model, from the windowed samples to the list of \<open>[re, im]\<close> pairs or to the
  exception it throws.
\<close>

type_synonym fft = "jsnum list \<Rightarrow> js_error + (jsnum \<times> jsnum) list"

section \<open>Amplitude analysis\<close>

text \<open>
  The single pass of \<open>analyzeAmplitude\<close> over the samples. The accumulator is
  \<open>(sum, sumSquares, peak, zeroCrossings)\<close>; \<open>prev\<close> is \<open>audioData[i - 1]\<close>, absent
  at \<open>i = 0\<close>.
\<close>

fun analyzeAmplitude_loop ::
  "jsnum list \<Rightarrow> jsnum option \<Rightarrow> jsnum \<times> jsnum \<times> jsnum \<times> nat \<Rightarrow> jsnum \<times> jsnum \<times> jsnum \<times> nat" where
  "analyzeAmplitude_loop [] prev acc = acc"
| "analyzeAmplitude_loop (x # xs) prev (sm, sumSquares, pk, zc) =
     (let sample = js_abs x in
      analyzeAmplitude_loop xs (Some x)
        (js_add sm sample,
         js_add sumSquares (js_mul sample sample),
         js_max pk sample,
         (case prev of
            None \<Rightarrow> zc
          | Some p \<Rightarrow> if js_ge x (Fin 0) \<noteq> js_ge p (Fin 0) then Suc zc else zc)))"

text \<open>
  \<open>analyzeAmplitude\<close> has no \<open>throw\<close> and calls nothing that throws on an array of
  numbers: every path returns a descriptor.
\<close>

definition analyzeAmplitude :: "jsnum list \<Rightarrow> options \<Rightarrow> js_error + amplitude" where
  "analyzeAmplitude audioData opts =
     (case analyzeAmplitude_loop audioData None (Fin 0, Fin 0, Fin 0, 0) of
        (sm, sumSquares, pk, zc) \<Rightarrow>
          (let n = Fin (real (length audioData));
               r = js_sqrt (js_div sumSquares n)
           in Inr \<lparr> rms = r,
                    peak = pk,
                    average = js_div sm n,
                    dynamicRange =
                      (if js_gt pk (Fin 0) then js_mul (Fin 20) (js_log10 (js_div pk r)) else Fin 0),
                    crestFactor = (if js_gt pk (Fin 0) then js_div pk r else Fin 0),
                    zeroCrossings = zc \<rparr>))"

section \<open>Helper methods\<close>

definition applyWindow :: "jsnum list \<Rightarrow> jsnum list" where
  "applyWindow xs =
     map (\<lambda>i. let windowValue =
                  js_mul (Fin 0.5)
                    (js_sub (Fin 1)
                       (js_cos (js_div (Fin (2 * pi * real i)) (Fin (real (length xs) - 1)))))
              in js_mul (xs ! i) windowValue)
         [0..<length xs]"

fun calculateRMS_loop :: "jsnum list \<Rightarrow> jsnum \<Rightarrow> jsnum" where
  "calculateRMS_loop [] sumSquares = sumSquares"
| "calculateRMS_loop (x # xs) sumSquares = calculateRMS_loop xs (js_add sumSquares (js_mul x x))"

definition calculateRMS :: "jsnum list \<Rightarrow> jsnum" where
  "calculateRMS xs = js_sqrt (js_div (calculateRMS_loop xs (Fin 0)) (Fin (real (length xs))))"

text \<open>
  The loop of \<open>calculateBandEnergy\<close> runs \<open>i\<close> from \<open>start\<close> while \<open>i < end\<close>; the
  bounds are numbers computed by the caller, possibly infinite, so the loop need not stop.
\<close>

partial_function (option) calculateBandEnergy_loop ::
  "jsnum list \<Rightarrow> jsnum \<Rightarrow> jsnum \<Rightarrow> jsnum \<Rightarrow> jsnum option" where
  "calculateBandEnergy_loop magnitudes stop i energy =
     (if js_lt i stop
      then calculateBandEnergy_loop magnitudes stop (js_add i (Fin 1))
             (js_add energy (js_mul (js_index magnitudes i) (js_index magnitudes i)))
      else Some energy)"

definition calculateBandEnergy :: "jsnum list \<Rightarrow> jsnum \<Rightarrow> jsnum \<Rightarrow> jsnum option" where
  "calculateBandEnergy magnitudes start stop = calculateBandEnergy_loop magnitudes stop start (Fin 0)"

text \<open>
  \<open>Array.prototype.sort\<close> with a comparator is stable; it is modelled as the stable
  insertion sort. \<open>x\<close> goes after \<open>y\<close> exactly when the comparator's result is
  positive (a \<open>NaN\<close> result counts as zero).
\<close>

fun js_insert :: "('a \<Rightarrow> 'a \<Rightarrow> jsnum) \<Rightarrow> 'a \<Rightarrow> 'a list \<Rightarrow> 'a list" where
  "js_insert cmp x [] = [x]"
| "js_insert cmp x (y # ys) =
     (if js_gt (cmp x y) (Fin 0) then y # js_insert cmp x ys else x # y # ys)"

definition js_sort :: "('a \<Rightarrow> 'a \<Rightarrow> jsnum) \<Rightarrow> 'a list \<Rightarrow> 'a list" where
  "js_sort cmp xs = foldr (js_insert cmp) xs []"

text \<open>\<open>Math.max(...values)\<close>: \<open>-Infinity\<close> for no argument, \<open>NaN\<close> if any is.\<close>

definition js_max_list :: "jsnum list \<Rightarrow> jsnum" where
  "js_max_list xs = foldl js_max NInf xs"

text \<open>The comparator \<open>(a, b) => b.magnitude - a.magnitude\<close>.\<close>

definition by_magnitude :: "frequency_entry \<Rightarrow> frequency_entry \<Rightarrow> jsnum" where
  "by_magnitude a b = js_sub (magnitude b) (magnitude a)"

definition findDominantFrequencies :: "jsnum list \<Rightarrow> real \<Rightarrow> real \<Rightarrow> frequency_entry list" where
  "findDominantFrequencies magnitudes sampleRate fftSize =
     (let threshold = js_mul (js_max_list magnitudes) (Fin 0.1);
          frequencies =
            map (\<lambda>i. \<lparr> frequency = js_div (Fin (real i * sampleRate)) (Fin fftSize),
                        magnitude = magnitudes ! i \<rparr>)
              (filter (\<lambda>i. js_gt (magnitudes ! i) threshold)
                 (filter (\<lambda>i. real i < real (length magnitudes) / 2) [0..<length magnitudes]))
      in slice (js_sort by_magnitude frequencies) 0 5)"

text \<open>\<open>data.reduce((sum, val) => sum + f(val), 0)\<close> is a left fold.\<close>

definition calculateVariance :: "jsnum list \<Rightarrow> jsnum" where
  "calculateVariance xs =
     (let n = Fin (real (length xs));
          mean = js_div (foldl (\<lambda>sm val. js_add sm val) (Fin 0) xs) n
      in js_div
           (foldl (\<lambda>sm val. js_add sm (js_mul (js_sub val mean) (js_sub val mean))) (Fin 0) xs)
           n)"

definition detectTransition :: "jsnum list \<Rightarrow> profile_parameters \<Rightarrow> bool" where
  "detectTransition window params =
     js_gt (calculateVariance window) (Fin (js_or (param_sensitivity params) 0.5))"

definition calculateConfidence :: "amplitude \<Rightarrow> profile \<Rightarrow> jsnum" where
  "calculateConfidence analysis profile =
     (let c = (case profile_type profile of
                 Quiet \<Rightarrow>
                   js_max (Fin 0)
                     (js_sub (Fin 1)
                        (js_div (rms analysis)
                           (Fin (js_or (param_maxAmplitude (parameters profile)) 0.1))))
               | Intensity \<Rightarrow>
                   js_min (Fin 1)
                     (js_div (rms analysis)
                        (Fin (js_or (param_minAmplitude (parameters profile)) 0.7)))
               | _ \<Rightarrow> Fin 0.5)
      in js_max (Fin 0) (js_min (Fin 1) c))"

section \<open>Spectral analysis\<close>

fun spectralCentroid_loop ::
  "real \<Rightarrow> real \<Rightarrow> jsnum list \<Rightarrow> nat \<Rightarrow> jsnum \<times> jsnum \<Rightarrow> jsnum \<times> jsnum" where
  "spectralCentroid_loop sampleRate fftSize [] i acc = acc"
| "spectralCentroid_loop sampleRate fftSize (m # rest) i (weightedSum, magnitudeSum) =
     (let freq = js_div (Fin (real i * sampleRate)) (Fin fftSize) in
      spectralCentroid_loop sampleRate fftSize rest (Suc i)
        (js_add weightedSum (js_mul freq m), js_add magnitudeSum m))"

text \<open>
  The result is \<open>None\<close> when a band loop does not stop, \<open>Some (Inl e)\<close> when the
  transform throws \<open>e\<close> (nothing in \<open>analyzeSpectral\<close> catches it), and the
  descriptor otherwise.
\<close>

definition analyzeSpectral :: "fft \<Rightarrow> jsnum list \<Rightarrow> options \<Rightarrow> (js_error + spectral) option" where
  "analyzeSpectral fft audioData opts =
     (let fftSize = js_default (opt_fftSize opts) 2048;
          sampleRate = js_default (opt_sampleRate opts) 44100;
          windowedData = applyWindow (slice audioData 0 (js_trunc fftSize))
      in case fft windowedData of
           Inl e \<Rightarrow> Some (Inl e)
         | Inr fftResult \<Rightarrow>
             (let magnitudes =
                    map (\<lambda>c. js_sqrt (js_add (js_mul (fst c) (fst c)) (js_mul (snd c) (snd c))))
                      fftResult;
                  totals = spectralCentroid_loop sampleRate fftSize magnitudes 0 (Fin 0, Fin 0);
                  centroid = (if js_gt (snd totals) (Fin 0) then js_div (fst totals) (snd totals) else Fin 0);
                  bassEnd = js_floor (js_div (Fin (fftSize * 250)) (Fin sampleRate));
                  midEnd = js_floor (js_div (Fin (fftSize * 4000)) (Fin sampleRate))
              in case calculateBandEnergy magnitudes (Fin 0) bassEnd of
                   None \<Rightarrow> None
                 | Some b \<Rightarrow>
                     (case calculateBandEnergy magnitudes bassEnd midEnd of
                        None \<Rightarrow> None
                      | Some m \<Rightarrow>
                          (case calculateBandEnergy magnitudes midEnd
                                  (Fin (real (length magnitudes) / 2)) of
                             None \<Rightarrow> None
                           | Some t \<Rightarrow>
                               Some (Inr \<lparr> spectralCentroid = centroid,
                                           spectralRolloff = Fin 0,
                                           spectralFlux = Fin 0,
                                           dominantFrequencies =
                                             findDominantFrequencies magnitudes sampleRate fftSize,
                                           frequencyBands =
                                             \<lparr> bass = b, mid = m, treble = t \<rparr> \<rparr>)))))"

section \<open>Pattern detection\<close>

text \<open>
  The loops of \<open>detectTransitions\<close>, \<open>detectPatterns\<close> and \<open>applyProfile\<close> step
  \<open>i\<close> by \<open>windowSize\<close> while \<open>i < audioData.length - windowSize\<close>. The window size
  is the floor of a product of option values, so it can be zero or negative, and then the
  loop does not stop: the loops are partial functions, \<open>None\<close> standing for a call that
  does not return.
\<close>

partial_function (option) detectTransitions_loop ::
  "jsnum list \<Rightarrow> real \<Rightarrow> real \<Rightarrow> int \<Rightarrow> int \<Rightarrow> transition list \<Rightarrow> transition list option" where
  "detectTransitions_loop audioData sampleRate threshold windowSize i acc =
     (if i < int (length audioData) - windowSize
      then
        (let before = calculateRMS (slice audioData (i - windowSize) i);
             after = calculateRMS (slice audioData i (i + windowSize));
             delta = js_abs (js_sub after before)
         in detectTransitions_loop audioData sampleRate threshold windowSize (i + windowSize)
              (if js_gt delta (Fin threshold)
               then acc @
                      [\<lparr> time = js_div (Fin (of_int i)) (Fin sampleRate),
                         change = delta,
                         direction = (if js_gt after before then ''increasing'' else ''decreasing'') \<rparr>]
               else acc))
      else Some acc)"

definition detectTransitions :: "jsnum list \<Rightarrow> real \<Rightarrow> real \<Rightarrow> transition list option" where
  "detectTransitions audioData sampleRate threshold =
     (let windowSize = \<lfloor>0.1 * sampleRate\<rfloor>
      in detectTransitions_loop audioData sampleRate threshold windowSize windowSize [])"

partial_function (option) detectPatterns_loop ::
  "jsnum list \<Rightarrow> real \<Rightarrow> real \<Rightarrow> int \<Rightarrow> int \<Rightarrow> pattern_section list \<times> pattern_section list
     \<Rightarrow> (pattern_section list \<times> pattern_section list) option" where
  "detectPatterns_loop audioData sampleRate threshold windowSize i acc =
     (if i < int (length audioData) - windowSize
      then
        (let window = slice audioData i (i + windowSize);
             r = calculateRMS window;
             entry = \<lparr> section_start = js_div (Fin (of_int i)) (Fin sampleRate),
                       section_end = js_div (Fin (of_int (i + windowSize))) (Fin sampleRate),
                       section_rms = r \<rparr>
         in detectPatterns_loop audioData sampleRate threshold windowSize (i + windowSize)
              (if js_lt r (Fin threshold) then (fst acc @ [entry], snd acc)
               else if js_gt r (Fin 0.7) then (fst acc, snd acc @ [entry])
               else acc))
      else Some acc)"

definition detectPatterns :: "jsnum list \<Rightarrow> options \<Rightarrow> patterns option" where
  "detectPatterns audioData opts =
     (let threshold = js_default (opt_threshold opts) 0.1;
          minDuration = js_default (opt_minDuration opts) 0.1;
          sampleRate = js_or (opt_sampleRate opts) 44100;
          windowSize = \<lfloor>minDuration * sampleRate\<rfloor>
      in case detectPatterns_loop audioData sampleRate threshold windowSize 0 ([], []) of
           None \<Rightarrow> None
         | Some acc \<Rightarrow>
             (case detectTransitions audioData sampleRate threshold of
                None \<Rightarrow> None
              | Some ts \<Rightarrow>
                  Some \<lparr> quietSections = fst acc, loudSections = snd acc,
                         transitions = ts, repetitivePatterns = [] \<rparr>))"

section \<open>Region detection\<close>

text \<open>
  One iteration of the loop of \<open>applyProfile\<close> at offset \<open>i\<close>. The state is the list
  of regions pushed so far and the position of the identifier generator.
\<close>

definition profile_matches :: "profile \<Rightarrow> jsnum list \<Rightarrow> amplitude \<Rightarrow> bool" where
  "profile_matches profile window analysis =
     (case profile_type profile of
        Quiet \<Rightarrow> js_lt (rms analysis) (Fin (js_or (param_maxAmplitude (parameters profile)) 0.1))
      | Intensity \<Rightarrow> js_gt (rms analysis) (Fin (js_or (param_minAmplitude (parameters profile)) 0.7))
      | Transition \<Rightarrow> detectTransition window (parameters profile)
      | Custom \<Rightarrow> False)"

definition applyProfile_step ::
  "(nat \<Rightarrow> uuid) \<Rightarrow> jsnum list \<Rightarrow> profile \<Rightarrow> real \<Rightarrow> int \<Rightarrow> int \<Rightarrow> region list \<times> nat
     \<Rightarrow> js_error + region list \<times> nat" where
  "applyProfile_step ids audioData profile sampleRate windowSize i st =
     (let window = slice audioData i (i + windowSize)
      in case analyzeAmplitude window no_options of
           Inl e \<Rightarrow> Inl e
         | Inr analysis \<Rightarrow>
             if profile_matches profile window analysis
             then Inr (fst st @
                         [\<lparr> region_id = ids (snd st),
                            region_start = js_div (Fin (of_int i)) (Fin sampleRate),
                            region_end = js_div (Fin (of_int (i + windowSize))) (Fin sampleRate),
                            region_profile = profile_id profile,
                            confidence = calculateConfidence analysis profile,
                            data = analysis \<rparr>],
                       Suc (snd st))
             else Inr st)"

partial_function (option) applyProfile_loop ::
  "(nat \<Rightarrow> uuid) \<Rightarrow> jsnum list \<Rightarrow> profile \<Rightarrow> real \<Rightarrow> int \<Rightarrow> int \<Rightarrow> region list \<times> nat
     \<Rightarrow> (js_error + region list \<times> nat) option" where
  "applyProfile_loop ids audioData profile sampleRate windowSize i st =
     (if i < int (length audioData) - windowSize
      then
        (case applyProfile_step ids audioData profile sampleRate windowSize i st of
           Inl e \<Rightarrow> Some (Inl e)
         | Inr st' \<Rightarrow> applyProfile_loop ids audioData profile sampleRate windowSize (i + windowSize) st')
      else Some (Inr st))"

text \<open>The window size of a profile, in samples:
  \<open>Math.floor((profile.parameters.windowSize || 1.0) * sampleRate)\<close>.\<close>

definition profile_windowSize :: "profile \<Rightarrow> real \<Rightarrow> int" where
  "profile_windowSize profile sampleRate =
     \<lfloor>js_or (param_windowSize (parameters profile)) 1.0 * sampleRate\<rfloor>"

definition applyProfile ::
  "(nat \<Rightarrow> uuid) \<Rightarrow> nat \<Rightarrow> jsnum list \<Rightarrow> profile \<Rightarrow> real \<Rightarrow> (js_error + region list \<times> nat) option" where
  "applyProfile ids k audioData profile sampleRate =
     (let windowSize = profile_windowSize profile sampleRate
      in applyProfile_loop ids audioData profile sampleRate windowSize 0 ([], k))"

fun detectRegions_loop ::
  "(nat \<Rightarrow> uuid) \<Rightarrow> jsnum list \<Rightarrow> real \<Rightarrow> profile list \<Rightarrow> region list \<times> nat
     \<Rightarrow> (js_error + region list \<times> nat) option" where
  "detectRegions_loop ids audioData sampleRate [] st = Some (Inr st)"
| "detectRegions_loop ids audioData sampleRate (profile # rest) st =
     (case applyProfile ids (snd st) audioData profile sampleRate of
        None \<Rightarrow> None
      | Some (Inl e) \<Rightarrow> Some (Inl e)
      | Some (Inr (profileRegions, k')) \<Rightarrow>
          detectRegions_loop ids audioData sampleRate rest (fst st @ profileRegions, k'))"

definition detectRegions ::
  "(nat \<Rightarrow> uuid) \<Rightarrow> nat \<Rightarrow> jsnum list \<Rightarrow> options \<Rightarrow> (js_error + region list \<times> nat) option" where
  "detectRegions ids k audioData opts =
     detectRegions_loop ids audioData (js_default (opt_sampleRate opts) 44100)
       (js_default (opt_profiles opts) []) ([], k)"

text \<open>
  Two of the profiles the profile store preloads (\<open>data/db.ts\<close>), with the
  parameters the engine reads.
\<close>

definition quiet_profile :: profile where
  "quiet_profile =
     \<lparr> profile_id = ''quiet-profile'', profile_type = Quiet,
       parameters = \<lparr> param_windowSize = None, param_maxAmplitude = Some 0.1,
                      param_minAmplitude = None, param_sensitivity = None \<rparr> \<rparr>"

definition intensity_profile :: profile where
  "intensity_profile =
     \<lparr> profile_id = ''intensity-profile'', profile_type = Intensity,
       parameters = \<lparr> param_windowSize = None, param_maxAmplitude = None,
                      param_minAmplitude = Some 0.7, param_sensitivity = None \<rparr> \<rparr>"

section \<open>Orchestration\<close>

record analysis =
  amplitude :: amplitude
  spectral :: spectral
  patterns :: patterns
  regions :: "region list"

record analysis_result =
  result_id :: uuid
  timestamp :: string
  sampleCount :: nat
  analysis :: analysis

text \<open>
  The \<open>catch\<close> of \<open>analyzeAudio\<close>: whatever the \<open>try\<close> block throws is replaced by
  a new \<open>Error\<close> whose message is the caught message after a prefix.
\<close>

definition analysis_failed :: "js_error \<Rightarrow> js_error" where
  "analysis_failed e = JsError ''Error'' (''Analysis failed: '' @ message e)"

text \<open>
  \<open>analyzeAudio\<close> reads the identifier generator at position \<open>k\<close> and the clock
  \<open>now\<close>. The outcome is \<open>None\<close> when a sub-analysis does not return, the rethrown
  error, or the result with the position the generator has reached.
\<close>

definition analyzeAudio ::
  "fft \<Rightarrow> (nat \<Rightarrow> uuid) \<Rightarrow> nat \<Rightarrow> string \<Rightarrow> jsnum list \<Rightarrow> options
     \<Rightarrow> (js_error + analysis_result \<times> nat) option" where
  "analyzeAudio fft ids k now audioData opts =
     (case analyzeAmplitude audioData opts of
        Inl e \<Rightarrow> Some (Inl (analysis_failed e))
      | Inr a \<Rightarrow>
          (case analyzeSpectral fft audioData opts of
             None \<Rightarrow> None
           | Some (Inl e) \<Rightarrow> Some (Inl (analysis_failed e))
           | Some (Inr s) \<Rightarrow>
               (case detectPatterns audioData opts of
                  None \<Rightarrow> None
                | Some p \<Rightarrow>
                    (case detectRegions ids (Suc k) audioData opts of
                       None \<Rightarrow> None
                     | Some (Inl e) \<Rightarrow> Some (Inl (analysis_failed e))
                     | Some (Inr (rs, k')) \<Rightarrow>
                         Some (Inr (\<lparr> result_id = ids k,
                                      timestamp = now,
                                      sampleCount = length audioData,
                                      analysis = \<lparr> amplitude = a, spectral = s,
                                                    patterns = p, regions = rs \<rparr> \<rparr>,
                                    k'))))))"

section \<open>Notions used to state the properties\<close>

text \<open>The root mean square and the peak of a list of reals, as the loop computes them.\<close>

definition rms_of :: "real list \<Rightarrow> real" where
  "rms_of ys = sqrt ((\<Sum>y\<leftarrow>ys. \<bar>y\<bar> * \<bar>y\<bar>) / real (length ys))"

definition peak_of :: "real list \<Rightarrow> real" where
  "peak_of ys = foldl max 0 (map abs ys)"

text \<open>A sum of squares that a \<open>NaN\<close> or infinite sample has spoiled.\<close>

definition unbounded :: "jsnum \<Rightarrow> bool" where
  "unbounded q = (q = NaN \<or> q = PInf)"

text \<open>
  The offsets the loop of \<open>applyProfile\<close> visits when the window size is positive, the
  descriptor of the window at an offset, whether that window matches the profile, and the
  region pushed for it.
\<close>

definition window_offsets :: "nat \<Rightarrow> int \<Rightarrow> int set" where
  "window_offsets len ws = {i. 0 \<le> i \<and> ws dvd i \<and> i < int len - ws}"

definition window_analysis :: "jsnum list \<Rightarrow> int \<Rightarrow> int \<Rightarrow> amplitude" where
  "window_analysis audioData ws i = projr (analyzeAmplitude (slice audioData i (i + ws)) no_options)"

definition window_matches :: "jsnum list \<Rightarrow> profile \<Rightarrow> int \<Rightarrow> int \<Rightarrow> bool" where
  "window_matches audioData p ws i =
     profile_matches p (slice audioData i (i + ws)) (window_analysis audioData ws i)"

definition region_at :: "uuid \<Rightarrow> jsnum list \<Rightarrow> profile \<Rightarrow> real \<Rightarrow> int \<Rightarrow> int \<Rightarrow> region" where
  "region_at u audioData p sr ws i =
     \<lparr> region_id = u,
       region_start = js_div (Fin (of_int i)) (Fin sr),
       region_end = js_div (Fin (of_int (i + ws))) (Fin sr),
       region_profile = profile_id p,
       confidence = calculateConfidence (window_analysis audioData ws i) p,
       data = window_analysis audioData ws i \<rparr>"

text \<open>The regions pushed are those of the windows that match, one for each.\<close>

definition regions_upto ::
  "jsnum list \<Rightarrow> profile \<Rightarrow> real \<Rightarrow> int \<Rightarrow> int \<Rightarrow> region list \<Rightarrow> bool" where
  "regions_upto audioData p sr ws j regs =
     (0 \<le> j \<and> ws dvd j
      \<and> (\<forall>r\<in>set regs. \<exists>i u. i \<in> window_offsets (length audioData) ws \<and> i < j
             \<and> window_matches audioData p ws i \<and> r = region_at u audioData p sr ws i)
      \<and> (\<forall>i\<in>window_offsets (length audioData) ws. i < j \<and> window_matches audioData p ws i
             \<longrightarrow> (\<exists>u. region_at u audioData p sr ws i \<in> set regs)))"

text \<open>The region of a silent window matched by the preloaded quiet profile.\<close>

definition silent_region :: "uuid \<Rightarrow> real \<Rightarrow> real \<Rightarrow> region" where
  "silent_region u a b =
     \<lparr> region_id = u, region_start = Fin a, region_end = Fin b,
       region_profile = ''quiet-profile'', confidence = Fin 1,
       data = \<lparr> rms = Fin 0, peak = Fin 0, average = Fin 0, dynamicRange = Fin 0,
                crestFactor = Fin 0, zeroCrossings = 0 \<rparr> \<rparr>"

text \<open>Regions in increasing order of start, none reaching into a later one; and the
  invariant of the loop at offset \<open>j\<close>.\<close>

definition ordered_regions :: "region list \<Rightarrow> bool" where
  "ordered_regions regs =
     sorted_wrt (\<lambda>a b. js_lt (region_start a) (region_start b)
                     \<and> js_le (region_end a) (region_start b)) regs"

definition ordered_upto :: "real \<Rightarrow> int \<Rightarrow> region list \<Rightarrow> bool" where
  "ordered_upto sr j regs =
     (ordered_regions regs
      \<and> (\<forall>r\<in>set regs. js_lt (region_start r) (region_end r)
            \<and> js_le (region_end r) (Fin (of_int j / sr))))"

text \<open>\<open>clamp(y, 0, 1)\<close>, the start time of the window at an offset, and whether a list
  of regions has a region starting there.\<close>

definition clamp01 :: "jsnum \<Rightarrow> jsnum" where
  "clamp01 y = js_max (Fin 0) (js_min (Fin 1) y)"

definition window_start :: "real \<Rightarrow> int \<Rightarrow> jsnum" where
  "window_start sr i = js_div (Fin (of_int i)) (Fin sr)"

definition emitted_at :: "region list \<Rightarrow> real \<Rightarrow> int \<Rightarrow> bool" where
  "emitted_at regs sr i = (\<exists>r\<in>set regs. region_start r = window_start sr i)"

text \<open>The offsets visited for a profile, and the \<open>rms\<close> of the window at an offset.\<close>

definition profile_offsets :: "jsnum list \<Rightarrow> profile \<Rightarrow> real \<Rightarrow> int set" where
  "profile_offsets audioData p sr = window_offsets (length audioData) (profile_windowSize p sr)"

definition window_rms :: "jsnum list \<Rightarrow> profile \<Rightarrow> real \<Rightarrow> int \<Rightarrow> jsnum" where
  "window_rms audioData p sr i = rms (window_analysis audioData (profile_windowSize p sr) i)"

text \<open>A region over a window of samples that are all 1.\<close>

definition unit_region :: "uuid \<Rightarrow> real \<Rightarrow> real \<Rightarrow> string \<Rightarrow> real \<Rightarrow> region" where
  "unit_region u a b pid c =
     \<lparr> region_id = u, region_start = Fin a, region_end = Fin b,
       region_profile = pid, confidence = Fin c,
       data = \<lparr> rms = Fin 1, peak = Fin 1, average = Fin 1, dynamicRange = Fin 0,
                crestFactor = Fin 1, zeroCrossings = 0 \<rparr> \<rparr>"

text \<open>A quiet section from \<open>a\<close> to \<open>b\<close> seconds of a silent buffer.\<close>

definition quiet_section :: "real \<Rightarrow> real \<Rightarrow> pattern_section" where
  "quiet_section a b = \<lparr> section_start = Fin a, section_end = Fin b, section_rms = Fin 0 \<rparr>"

text \<open>A transform that throws, standing for a failure of the external package.\<close>

definition failing_fft :: fft where
  "failing_fft xs = Inl (JsError ''TypeError'' ''bad input'')"

text \<open>A region without its identifier, and the outcome of region detection without the
  identifiers and the position of the generator.\<close>

definition erase_id :: "region \<Rightarrow> region" where
  "erase_id r = r \<lparr> region_id := 0 \<rparr>"

definition erase_ids :: "(js_error + region list \<times> nat) option \<Rightarrow> (js_error + region list) option" where
  "erase_ids res = map_option (map_sum (\<lambda>e. e) (\<lambda>s. map erase_id (fst s))) res"

text \<open>
  Modelled from the spec: the forward discrete Fourier transform of step 2 of the spectral
  analysis, \<open>X[k] = \<Sum> x[n] (cos (2 pi k n / N) - i sin (2 pi k n / N))\<close>. The package
  that computes it is not part of the sources; this definition takes the place of the
  parameter \<open>fft\<close> in concrete runs only.
\<close>

definition dft :: fft where
  "dft xs =
     Inr (map (\<lambda>k. (foldl js_add (Fin 0)
                        (map (\<lambda>n. js_mul (xs ! n)
                                     (Fin (cos (2 * pi * real k * real n / real (length xs)))))
                           [0..<length xs]),
                     foldl js_add (Fin 0)
                        (map (\<lambda>n. js_mul (xs ! n)
                                     (Fin (- sin (2 * pi * real k * real n / real (length xs)))))
                           [0..<length xs])))
            [0..<length xs])"

text \<open>
  A concrete run: four silent samples at 44100 Hz, a transform of size 4 and the quiet
  profile with a window of two samples; and what the sub-analyses return on it.
\<close>

definition silent_buffer :: "jsnum list" where
  "silent_buffer = [Fin 0, Fin 0, Fin 0, Fin 0]"

definition short_quiet_profile :: profile where
  "short_quiet_profile =
     quiet_profile \<lparr> parameters := (parameters quiet_profile) \<lparr> param_windowSize := Some 0.00005 \<rparr> \<rparr>"

definition run_options :: options where
  "run_options =
     \<lparr> opt_windowSize = None, opt_fftSize = Some 4, opt_sampleRate = Some 44100,
       opt_threshold = None, opt_minDuration = None, opt_profiles = Some [short_quiet_profile] \<rparr>"

definition silent_amplitude :: amplitude where
  "silent_amplitude =
     \<lparr> rms = Fin 0, peak = Fin 0, average = Fin 0, dynamicRange = Fin 0,
       crestFactor = Fin 0, zeroCrossings = 0 \<rparr>"

definition silent_spectral :: spectral where
  "silent_spectral =
     \<lparr> spectralCentroid = Fin 0, spectralRolloff = Fin 0, spectralFlux = Fin 0,
       dominantFrequencies = [],
       frequencyBands = \<lparr> bass = Fin 0, mid = Fin 0, treble = Fin 0 \<rparr> \<rparr>"

definition run_region :: "uuid \<Rightarrow> region" where
  "run_region u =
     \<lparr> region_id = u, region_start = Fin 0, region_end = Fin (1 / 22050),
       region_profile = ''quiet-profile'', confidence = Fin 1, data = silent_amplitude \<rparr>"

definition run_result :: "uuid \<Rightarrow> uuid \<Rightarrow> string \<Rightarrow> analysis_result" where
  "run_result u v now =
     \<lparr> result_id = u, timestamp = now, sampleCount = 4,
       analysis = \<lparr> amplitude = silent_amplitude, spectral = silent_spectral,
                    patterns = \<lparr> quietSections = [], loudSections = [], transitions = [],
                                  repetitivePatterns = [] \<rparr>,
                    regions = [run_region v] \<rparr> \<rparr>"

section \<open>Arithmetic on finite numbers\<close>

lemma finite_samples_map: "\<forall>x\<in>set xs. is_finite x \<Longrightarrow> \<exists>ys. xs = map Fin ys"
proof (induction xs)
  case Nil
  then show ?case by simp
next
  case (Cons x xs)
  then obtain ys where "xs = map Fin ys" by auto
  moreover obtain a where "x = Fin a" using Cons.prems by (cases x) auto
  ultimately have "x # xs = map Fin (a # ys)" by simp
  then show ?case ..
qed

lemma js_max_Fin [simp]: "js_max (Fin a) (Fin b) = Fin (max a b)"
  by (simp add: js_max_def max_def)

lemma js_min_Fin [simp]: "js_min (Fin a) (Fin b) = Fin (min a b)"
  by (simp add: js_min_def min_def)

lemma js_le_Fin [simp]: "js_le (Fin a) (Fin b) = (a \<le> b)"
  by (auto simp: js_le_def)

lemma js_gt_Fin [simp]: "js_gt (Fin a) (Fin b) = (b < a)"
  by (simp add: js_gt_def)

lemma js_ge_Fin [simp]: "js_ge (Fin a) (Fin b) = (b \<le> a)"
  by (simp add: js_ge_def)

lemma js_sub_Fin [simp]: "js_sub (Fin a) (Fin b) = Fin (a - b)"
  by (simp add: js_sub_def)

lemma foldl_max_ge: "(p::real) \<le> foldl max p zs"
  by (induction zs arbitrary: p) (auto intro: order_trans [OF max.cobounded1])

lemma foldl_max_upper: "z \<in> set zs \<Longrightarrow> (z::real) \<le> foldl max p zs"
proof (induction zs arbitrary: p)
  case Nil
  then show ?case by simp
next
  case (Cons a zs)
  show ?case
  proof (cases "z = a")
    case True
    have "a \<le> max p a" by simp
    also have "\<dots> \<le> foldl max (max p a) zs" by (rule foldl_max_ge)
    finally show ?thesis using True by simp
  next
    case False
    then show ?thesis using Cons by simp
  qed
qed

lemma foldl_max_attained: "foldl max p zs = (p::real) \<or> foldl max p zs \<in> set zs"
proof (induction zs arbitrary: p)
  case Nil
  then show ?case by simp
next
  case (Cons a zs)
  show ?case using Cons [of "max p a"] by (auto simp: max_def split: if_splits)
qed

lemma sum_list_bounded:
  "\<forall>y\<in>set ys. f y \<le> (c::real) \<Longrightarrow> (\<Sum>y\<leftarrow>ys. f y) \<le> real (length ys) * c"
  by (induction ys) (auto simp: algebra_simps)

lemma sum_list_bounded_eq:
  "\<forall>y\<in>set ys. f y \<le> (c::real) \<Longrightarrow>
   ((\<Sum>y\<leftarrow>ys. f y) = real (length ys) * c) = (\<forall>y\<in>set ys. f y = c)"
proof (induction ys)
  case Nil
  then show ?case by simp
next
  case (Cons a ys)
  have b: "(\<Sum>y\<leftarrow>ys. f y) \<le> real (length ys) * c"
    using Cons.prems by (intro sum_list_bounded) simp
  have a: "f a \<le> c" using Cons.prems by simp
  have "(f a + (\<Sum>y\<leftarrow>ys. f y) = c + real (length ys) * c) =
        (f a = c \<and> (\<Sum>y\<leftarrow>ys. f y) = real (length ys) * c)"
    using a b by linarith
  then show ?case using Cons by (simp add: algebra_simps)
qed

section \<open>Amplitude analysis of finite windows\<close>

lemma analyzeAmplitude_loop_Fin:
  "\<exists>z'. analyzeAmplitude_loop (map Fin ys) prev (Fin s, Fin q, Fin p, z) =
     (Fin (s + (\<Sum>y\<leftarrow>ys. \<bar>y\<bar>)), Fin (q + (\<Sum>y\<leftarrow>ys. \<bar>y\<bar> * \<bar>y\<bar>)),
      Fin (foldl max p (map abs ys)), z')"
proof (induction ys arbitrary: prev s q p z)
  case Nil
  then show ?case by simp
next
  case (Cons y ys)
  show ?case
    using Cons.IH [of "Some (Fin y)" "s + \<bar>y\<bar>" "q + \<bar>y\<bar> * \<bar>y\<bar>" "max p \<bar>y\<bar>"]
    by (simp add: add.assoc)
qed

lemma analyzeAmplitude_Fin:
  assumes "ys \<noteq> []"
  shows "\<exists>d. analyzeAmplitude (map Fin ys) opts = Inr d
     \<and> rms d = Fin (rms_of ys) \<and> peak d = Fin (peak_of ys)"
proof -
  obtain z' where l: "analyzeAmplitude_loop (map Fin ys) None (Fin 0, Fin 0, Fin 0, 0) =
     (Fin (0 + (\<Sum>y\<leftarrow>ys. \<bar>y\<bar>)), Fin (0 + (\<Sum>y\<leftarrow>ys. \<bar>y\<bar> * \<bar>y\<bar>)),
      Fin (foldl max 0 (map abs ys)), z')"
    using analyzeAmplitude_loop_Fin [of ys None 0 0 0 0] by blast
  have n: "real (length ys) \<noteq> 0" using assms by simp
  have q: "0 \<le> (\<Sum>y\<leftarrow>ys. \<bar>y\<bar> * \<bar>y\<bar>)"
    by (rule sum_list_nonneg) auto
  have "\<not> (\<Sum>y\<leftarrow>ys. \<bar>y\<bar> * \<bar>y\<bar>) / real (length ys) < 0"
    using q by (simp add: not_less)
  then show ?thesis
    using l n by (simp add: analyzeAmplitude_def Let_def rms_of_def peak_of_def)
qed

lemma rms_of_nonneg: "0 \<le> rms_of ys"
proof -
  have "0 \<le> (\<Sum>y\<leftarrow>ys. \<bar>y\<bar> * \<bar>y\<bar>)"
    by (rule sum_list_nonneg) auto
  then show ?thesis by (simp add: rms_of_def)
qed

lemma rms_peak_real:
  assumes "ys \<noteq> []"
  shows "rms_of ys \<le> peak_of ys"
    and "(rms_of ys = peak_of ys) = (\<forall>x\<in>set ys. \<forall>y\<in>set ys. \<bar>x\<bar> = \<bar>y\<bar>)"
proof -
  define M where "M = peak_of ys"
  define Q where "Q = (\<Sum>y\<leftarrow>ys. \<bar>y\<bar> * \<bar>y\<bar>)"
  have n: "0 < real (length ys)" using assms(1) by simp
  have M0: "0 \<le> M" unfolding M_def peak_of_def by (rule foldl_max_ge)
  have up: "\<And>y. y \<in> set ys \<Longrightarrow> \<bar>y\<bar> \<le> M"
    unfolding M_def peak_of_def by (rule foldl_max_upper) simp
  have att: "\<exists>y\<in>set ys. \<bar>y\<bar> = M"
  proof -
    obtain y0 where y0: "y0 \<in> set ys" using assms(1) by (cases ys) auto
    have "M = 0 \<or> M \<in> set (map abs ys)"
      unfolding M_def peak_of_def by (rule foldl_max_attained)
    then show ?thesis
    proof
      assume "M = 0"
      then have "\<bar>y0\<bar> = M" using up [OF y0] by simp
      then show ?thesis using y0 by blast
    next
      assume "M \<in> set (map abs ys)"
      then show ?thesis by auto
    qed
  qed
  have sq: "\<forall>y\<in>set ys. \<bar>y\<bar> * \<bar>y\<bar> \<le> M * M"
  proof
    fix y assume "y \<in> set ys"
    then have "\<bar>y\<bar> \<le> M" by (rule up)
    then show "\<bar>y\<bar> * \<bar>y\<bar> \<le> M * M"
      by (intro mult_mono) (use M0 in simp_all)
  qed
  have le: "Q \<le> real (length ys) * (M * M)"
    unfolding Q_def using sq by (rule sum_list_bounded)
  have eq: "(Q = real (length ys) * (M * M)) = (\<forall>y\<in>set ys. \<bar>y\<bar> * \<bar>y\<bar> = M * M)"
    unfolding Q_def using sq by (rule sum_list_bounded_eq)
  have RM: "rms_of ys = sqrt (Q / real (length ys))" by (simp add: rms_of_def Q_def)
  have M: "M = sqrt (M * M)" using M0 by simp
  have "Q / real (length ys) \<le> M * M"
    using le n by (simp add: field_simps)
  then have "rms_of ys \<le> sqrt (M * M)" unfolding RM by (rule real_sqrt_le_mono)
  then show "rms_of ys \<le> peak_of ys" using M M_def by simp
  have "(rms_of ys = M) = (Q / real (length ys) = M * M)"
    unfolding RM by (subst M) (simp only: real_sqrt_eq_iff)
  also have "\<dots> = (Q = real (length ys) * (M * M))"
    using n by (simp add: field_simps)
  also have "\<dots> = (\<forall>y\<in>set ys. \<bar>y\<bar> * \<bar>y\<bar> = M * M)" by (rule eq)
  also have "\<dots> = (\<forall>y\<in>set ys. \<bar>y\<bar> = M)"
    using M0 power2_eq_iff_nonneg [of "\<bar>_\<bar>" M] by (simp add: power2_eq_square)
  also have "\<dots> = (\<forall>x\<in>set ys. \<forall>y\<in>set ys. \<bar>x\<bar> = \<bar>y\<bar>)"
    using att by metis
  finally show "(rms_of ys = peak_of ys) = (\<forall>x\<in>set ys. \<forall>y\<in>set ys. \<bar>x\<bar> = \<bar>y\<bar>)"
    unfolding M_def .
qed

text \<open>
  Claim C1. For every non-empty window of finite samples, \<open>analyzeAmplitude\<close> returns a
  descriptor whose \<open>rms\<close> is at most its \<open>peak\<close>, and the two are equal exactly when
  all samples of the window have the same absolute value. (Numbers are exact here:
  rounding is not part of the model.)
\<close>

theorem analyzeAmplitude_rms_le_peak:
  assumes "audioData \<noteq> []" and "\<forall>x\<in>set audioData. is_finite x"
  shows "\<exists>d. analyzeAmplitude audioData opts = Inr d
     \<and> js_le (rms d) (peak d)
     \<and> ((rms d = peak d) = (\<forall>x\<in>set audioData. \<forall>y\<in>set audioData. js_abs x = js_abs y))"
proof -
  obtain ys where ys: "audioData = map Fin ys"
    using finite_samples_map [OF assms(2)] by blast
  have ne: "ys \<noteq> []" using assms(1) ys by simp
  obtain d where d: "analyzeAmplitude (map Fin ys) opts = Inr d"
    "rms d = Fin (rms_of ys)" "peak d = Fin (peak_of ys)"
    using analyzeAmplitude_Fin [OF ne] by blast
  have "js_le (rms d) (peak d)"
    using rms_peak_real(1) [OF ne] d by simp
  moreover have "(rms d = peak d) = (\<forall>x\<in>set audioData. \<forall>y\<in>set audioData. js_abs x = js_abs y)"
    using rms_peak_real(2) [OF ne] d ys by simp
  ultimately show ?thesis using d(1) ys by blast
qed

theorem analyzeAmplitude_rms_le_peak_witness:
  "\<exists>d. analyzeAmplitude [Fin 3, Fin (- 4)] no_options = Inr d
     \<and> js_le (rms d) (peak d) \<and> rms d \<noteq> peak d"
  using analyzeAmplitude_rms_le_peak [of "[Fin 3, Fin (- 4)]" no_options] by auto

section \<open>Windows that are empty or not finite\<close>


lemma square_abs_cases: "js_mul (js_abs x) (js_abs x) \<noteq> NInf"
  by (cases x) (auto simp: inf_times_def)

lemma square_abs_unbounded: "\<not> is_finite x \<Longrightarrow> unbounded (js_mul (js_abs x) (js_abs x))"
  by (cases x) (auto simp: unbounded_def)

lemma add_unbounded_left: "unbounded q \<Longrightarrow> s \<noteq> NInf \<Longrightarrow> unbounded (js_add q s)"
  by (cases s) (auto simp: unbounded_def)

lemma add_unbounded_right: "q \<noteq> NInf \<Longrightarrow> unbounded s \<Longrightarrow> unbounded (js_add q s)"
  by (cases q) (auto simp: unbounded_def)

lemma add_not_NInf: "q \<noteq> NInf \<Longrightarrow> s \<noteq> NInf \<Longrightarrow> js_add q s \<noteq> NInf"
  by (cases q; cases s) auto

lemma analyzeAmplitude_loop_unbounded:
  "unbounded q \<Longrightarrow> unbounded (fst (snd (analyzeAmplitude_loop xs prev (s, q, p, z))))"
proof (induction xs arbitrary: prev s q p z)
  case Nil
  then show ?case by simp
next
  case (Cons x xs)
  have "unbounded (js_add q (js_mul (js_abs x) (js_abs x)))"
    using Cons.prems square_abs_cases by (rule add_unbounded_left)
  then show ?case using Cons.IH by (simp add: Let_def)
qed

lemma analyzeAmplitude_loop_nonfinite:
  "\<exists>x\<in>set xs. \<not> is_finite x \<Longrightarrow> q \<noteq> NInf \<Longrightarrow>
   unbounded (fst (snd (analyzeAmplitude_loop xs prev (s, q, p, z))))"
proof (induction xs arbitrary: prev s q p z)
  case Nil
  then show ?case by simp
next
  case (Cons x xs)
  show ?case
  proof (cases "is_finite x")
    case True
    then have "\<exists>x\<in>set xs. \<not> is_finite x" using Cons.prems(1) by auto
    moreover have "js_add q (js_mul (js_abs x) (js_abs x)) \<noteq> NInf"
      using Cons.prems(2) square_abs_cases by (rule add_not_NInf)
    ultimately show ?thesis using Cons.IH by (simp add: Let_def)
  next
    case False
    have "unbounded (js_add q (js_mul (js_abs x) (js_abs x)))"
      using Cons.prems(2) square_abs_unbounded [OF False] by (rule add_unbounded_right)
    then show ?thesis using analyzeAmplitude_loop_unbounded by (simp add: Let_def)
  qed
qed

lemma sqrt_div_unbounded: "unbounded q \<Longrightarrow> \<not> is_finite (js_sqrt (js_div q (Fin (real n))))"
  by (auto simp: unbounded_def)

lemma analyzeAmplitude_rms:
  "\<exists>d. analyzeAmplitude xs opts = Inr d \<and>
     rms d = js_sqrt (js_div (fst (snd (analyzeAmplitude_loop xs None (Fin 0, Fin 0, Fin 0, 0))))
               (Fin (real (length xs))))"
  by (simp add: analyzeAmplitude_def Let_def split: prod.splits)

lemma analyzeAmplitude_empty:
  "analyzeAmplitude [] opts =
     Inr \<lparr> rms = NaN, peak = Fin 0, average = NaN, dynamicRange = Fin 0, crestFactor = Fin 0,
           zeroCrossings = 0 \<rparr>"
  by (simp add: analyzeAmplitude_def inf_times_def Let_def)

text \<open>
  Claim C5, as the code has it. \<open>analyzeAmplitude\<close> never fails: it returns a
  descriptor for every window. For a window of length 0 the descriptor has \<open>rms\<close> and
  \<open>average\<close> \<open>NaN\<close> and every other field zero; for a window with a \<open>NaN\<close> or
  infinite sample the \<open>rms\<close> of the descriptor is \<open>NaN\<close> or infinite.
\<close>

theorem analyzeAmplitude_never_fails:
  "\<exists>d. analyzeAmplitude audioData opts = Inr d
     \<and> (audioData = [] \<longrightarrow>
          d = \<lparr> rms = NaN, peak = Fin 0, average = NaN, dynamicRange = Fin 0,
                crestFactor = Fin 0, zeroCrossings = 0 \<rparr>)
     \<and> ((\<exists>x\<in>set audioData. \<not> is_finite x) \<longrightarrow> \<not> is_finite (rms d))"
proof -
  obtain d where d: "analyzeAmplitude audioData opts = Inr d"
    "rms d = js_sqrt (js_div (fst (snd (analyzeAmplitude_loop audioData None (Fin 0, Fin 0, Fin 0, 0))))
               (Fin (real (length audioData))))"
    using analyzeAmplitude_rms by blast
  have "audioData = [] \<longrightarrow>
          d = \<lparr> rms = NaN, peak = Fin 0, average = NaN, dynamicRange = Fin 0,
                crestFactor = Fin 0, zeroCrossings = 0 \<rparr>"
    using d(1) analyzeAmplitude_empty [of opts] by auto
  moreover have "(\<exists>x\<in>set audioData. \<not> is_finite x) \<longrightarrow> \<not> is_finite (rms d)"
    using analyzeAmplitude_loop_nonfinite [of audioData "Fin 0" None "Fin 0" "Fin 0" 0]
      sqrt_div_unbounded d(2) by auto
  ultimately show ?thesis using d(1) by blast
qed

theorem analyzeAmplitude_never_fails_witness:
  "\<exists>d. analyzeAmplitude [Fin 1, NaN] no_options = Inr d \<and> \<not> is_finite (rms d)"
  using analyzeAmplitude_never_fails [of "[Fin 1, NaN]" no_options] by auto

text \<open>
  Claim C5 as stated fails: the empty window and a window holding \<open>NaN\<close> both get a
  descriptor, not an error.
\<close>

theorem analyzeAmplitude_empty_counterexample:
  "analyzeAmplitude [] no_options =
     Inr \<lparr> rms = NaN, peak = Fin 0, average = NaN, dynamicRange = Fin 0, crestFactor = Fin 0,
           zeroCrossings = 0 \<rparr>
   \<and> analyzeAmplitude [NaN] no_options =
     Inr \<lparr> rms = NaN, peak = NaN, average = NaN, dynamicRange = Fin 0, crestFactor = Fin 0,
           zeroCrossings = 0 \<rparr>"
  by (simp add: analyzeAmplitude_def inf_times_def js_max_def js_gt_def Let_def)

section \<open>Dominant frequencies\<close>


lemma slice_prefix: "0 \<le> n \<Longrightarrow> slice xs 0 n = take (nat n) xs"
  by (simp add: slice_def Let_def min_def)

lemma js_insert_set: "set (js_insert cmp x ys) = insert x (set ys)"
  by (induction ys) auto

lemma js_insert_length: "length (js_insert cmp x ys) = Suc (length ys)"
  by (induction ys) auto

lemma js_sort_set: "set (js_sort cmp xs) = set xs"
  unfolding js_sort_def by (induction xs) (auto simp: js_insert_set)

lemma js_sort_length: "length (js_sort cmp xs) = length xs"
  unfolding js_sort_def by (induction xs) (auto simp: js_insert_length)

lemma js_gt_difference: "a \<noteq> NaN \<Longrightarrow> b \<noteq> NaN \<Longrightarrow> js_gt (js_sub b a) (Fin 0) = js_lt a b"
  by (cases a; cases b) (auto simp: js_sub_def js_gt_def)

lemma js_ge_total: "a \<noteq> NaN \<Longrightarrow> b \<noteq> NaN \<Longrightarrow> \<not> js_lt a b \<Longrightarrow> js_ge a b"
  by (simp add: js_ge_def js_le_def)

lemma js_lt_imp_ge: "js_lt a b \<Longrightarrow> js_ge b a"
  by (cases a; cases b) (auto simp: js_ge_def js_le_def)

lemma js_ge_trans: "js_ge a b \<Longrightarrow> js_ge b c \<Longrightarrow> js_ge a c"
  by (cases a; cases b; cases c) (auto simp: js_ge_def js_le_def)


lemma js_insert_sorted:
  assumes "magnitude x \<noteq> NaN" and "\<forall>y\<in>set ys. magnitude y \<noteq> NaN"
    and "sorted_wrt (\<lambda>a b. js_ge (magnitude a) (magnitude b)) ys"
  shows "sorted_wrt (\<lambda>a b. js_ge (magnitude a) (magnitude b)) (js_insert by_magnitude x ys)"
  using assms
proof (induction ys)
  case Nil
  then show ?case by simp
next
  case (Cons y ys)
  show ?case
  proof (cases "js_lt (magnitude x) (magnitude y)")
    case True
    then have "js_gt (by_magnitude x y) (Fin 0)"
      using Cons.prems by (simp add: by_magnitude_def js_gt_difference)
    moreover have "js_ge (magnitude y) (magnitude x)" using True by (rule js_lt_imp_ge)
    ultimately show ?thesis using Cons by (auto simp: js_insert_set)
  next
    case False
    then have n: "\<not> js_gt (by_magnitude x y) (Fin 0)"
      using Cons.prems by (simp add: by_magnitude_def js_gt_difference)
    have xy: "js_ge (magnitude x) (magnitude y)"
      using Cons.prems False by (intro js_ge_total) auto
    have "\<forall>z\<in>set ys. js_ge (magnitude x) (magnitude z)"
      using Cons.prems(3) xy by (auto intro: js_ge_trans)
    then show ?thesis using n xy Cons.prems(3) by simp
  qed
qed

lemma js_sort_sorted:
  "\<forall>y\<in>set xs. magnitude y \<noteq> NaN \<Longrightarrow>
   sorted_wrt (\<lambda>a b. js_ge (magnitude a) (magnitude b)) (js_sort by_magnitude xs)"
proof (induction xs)
  case Nil
  then show ?case by (simp add: js_sort_def)
next
  case (Cons x xs)
  have "sorted_wrt (\<lambda>a b. js_ge (magnitude a) (magnitude b)) (js_insert by_magnitude x (js_sort by_magnitude xs))"
    using Cons by (intro js_insert_sorted) (auto simp: js_sort_set)
  then show ?case by (simp add: js_sort_def)
qed

lemma js_gt_not_NaN: "js_gt a b \<Longrightarrow> a \<noteq> NaN"
  by (cases a; cases b) (auto simp: js_gt_def)


lemma js_max_upper: "js_max a b = NaN \<or> (js_le a (js_max a b) \<and> js_le b (js_max a b))"
  by (cases a; cases b) (auto simp: js_max_def js_le_def)

lemma js_le_trans: "js_le a b \<Longrightarrow> js_le b c \<Longrightarrow> js_le a c"
  by (cases a; cases b; cases c) (auto simp: js_le_def)

lemma foldl_js_max_NaN: "foldl js_max NaN xs = NaN"
  by (induction xs) (auto simp: js_max_def)

lemma foldl_js_max_upper:
  "foldl js_max a xs = NaN \<or>
     (js_le a (foldl js_max a xs) \<and> (\<forall>x\<in>set xs. js_le x (foldl js_max a xs)))"
proof (induction xs arbitrary: a)
  case Nil
  then show ?case by (cases a) (auto simp: js_le_def)
next
  case (Cons x xs)
  show ?case
  proof (cases "js_max a x = NaN")
    case True
    then show ?thesis by (simp add: foldl_js_max_NaN)
  next
    case False
    then have ax: "js_le a (js_max a x)" "js_le x (js_max a x)"
      using js_max_upper [of a x] by auto
    from Cons [of "js_max a x"] show ?thesis
      using ax by (auto intro: js_le_trans)
  qed
qed

lemma js_max_list_upper:
  "js_max_list xs = NaN \<or> (\<forall>x\<in>set xs. js_le x (js_max_list xs))"
  using foldl_js_max_upper [of NInf xs] by (auto simp: js_max_list_def)

text \<open>
  Claim C7, as the code has it. For every magnitude spectrum the list returned by
  \<open>findDominantFrequencies\<close> has at most 5 entries, is sorted by magnitude in
  descending order where equal magnitudes may follow each other, and every entry is a bin
  \<open>i\<close> of the first half of the spectrum (\<open>2 * i < length\<close>) whose magnitude exceeds
  one tenth of \<open>Math.max\<close> of the spectrum, which bounds every magnitude unless it is
  \<open>NaN\<close>.
\<close>

theorem findDominantFrequencies_sorted:
  "length (findDominantFrequencies magnitudes sampleRate fftSize) \<le> 5
   \<and> sorted_wrt (\<lambda>a b. js_ge (magnitude a) (magnitude b))
        (findDominantFrequencies magnitudes sampleRate fftSize)
   \<and> (\<forall>f\<in>set (findDominantFrequencies magnitudes sampleRate fftSize).
         \<exists>i. 2 * i < length magnitudes
           \<and> f = \<lparr> frequency = js_div (Fin (real i * sampleRate)) (Fin fftSize),
                    magnitude = magnitudes ! i \<rparr>
           \<and> js_gt (magnitudes ! i) (js_mul (js_max_list magnitudes) (Fin 0.1)))
   \<and> (js_max_list magnitudes = NaN \<or> (\<forall>m\<in>set magnitudes. js_le m (js_max_list magnitudes)))"
proof -
  define threshold where "threshold = js_mul (js_max_list magnitudes) (Fin 0.1)"
  define fs where "fs = findDominantFrequencies magnitudes sampleRate fftSize"
  define frequencies where "frequencies =
     map (\<lambda>i. \<lparr> frequency = js_div (Fin (real i * sampleRate)) (Fin fftSize),
                 magnitude = magnitudes ! i \<rparr>)
       (filter (\<lambda>i. js_gt (magnitudes ! i) threshold)
          (filter (\<lambda>i. real i < real (length magnitudes) / 2) [0..<length magnitudes]))"
  have fs: "fs = take 5 (js_sort by_magnitude frequencies)"
    by (simp add: fs_def findDominantFrequencies_def Let_def frequencies_def threshold_def
        slice_prefix)
  have len: "length fs \<le> 5" by (simp add: fs)
  have mem: "\<forall>f\<in>set frequencies. \<exists>i. 2 * i < length magnitudes
           \<and> f = \<lparr> frequency = js_div (Fin (real i * sampleRate)) (Fin fftSize),
                    magnitude = magnitudes ! i \<rparr>
           \<and> js_gt (magnitudes ! i) threshold"
  proof
    fix f assume "f \<in> set frequencies"
    then obtain i where i: "real i < real (length magnitudes) / 2"
      "js_gt (magnitudes ! i) threshold"
      "f = \<lparr> frequency = js_div (Fin (real i * sampleRate)) (Fin fftSize),
             magnitude = magnitudes ! i \<rparr>"
      unfolding frequencies_def by auto
    have "2 * i < length magnitudes" using i(1) by linarith
    then show "\<exists>i. 2 * i < length magnitudes
           \<and> f = \<lparr> frequency = js_div (Fin (real i * sampleRate)) (Fin fftSize),
                    magnitude = magnitudes ! i \<rparr>
           \<and> js_gt (magnitudes ! i) threshold"
      using i(2,3) by blast
  qed
  have "\<forall>f\<in>set frequencies. magnitude f \<noteq> NaN"
  proof
    fix f assume "f \<in> set frequencies"
    then obtain i where i: "js_gt (magnitudes ! i) threshold"
      "f = \<lparr> frequency = js_div (Fin (real i * sampleRate)) (Fin fftSize),
             magnitude = magnitudes ! i \<rparr>"
      using mem by blast
    have "magnitude f = magnitudes ! i" by (simp add: i(2))
    then show "magnitude f \<noteq> NaN" using js_gt_not_NaN [OF i(1)] by simp
  qed
  then have "sorted_wrt (\<lambda>a b. js_ge (magnitude a) (magnitude b)) (js_sort by_magnitude frequencies)"
    by (rule js_sort_sorted)
  then have sorted: "sorted_wrt (\<lambda>a b. js_ge (magnitude a) (magnitude b)) fs"
    unfolding fs by (rule sorted_wrt_take)
  have "set fs \<subseteq> set frequencies"
    unfolding fs using set_take_subset [of 5 "js_sort by_magnitude frequencies"]
    by (simp add: js_sort_set)
  then have bins: "\<forall>f\<in>set fs. \<exists>i. 2 * i < length magnitudes
           \<and> f = \<lparr> frequency = js_div (Fin (real i * sampleRate)) (Fin fftSize),
                    magnitude = magnitudes ! i \<rparr>
           \<and> js_gt (magnitudes ! i) threshold"
    using mem by blast
  have "js_max_list magnitudes = NaN \<or> (\<forall>m\<in>set magnitudes. js_le m (js_max_list magnitudes))"
    by (rule js_max_list_upper)
  then show ?thesis
    using len sorted bins unfolding fs_def threshold_def by blast
qed


lemma js_max_NInf [simp]: "js_max NInf x = x"
  by (cases x) (auto simp: js_max_def)

lemmas findDominantFrequencies_eval =
  findDominantFrequencies_def js_max_list_def js_sort_def slice_def by_magnitude_def Let_def
  inf_times_def

theorem findDominantFrequencies_sorted_witness:
  "findDominantFrequencies [Fin 1, Fin 3, Fin 2, Fin 0] 4 4 =
     [\<lparr> frequency = Fin 1, magnitude = Fin 3 \<rparr>, \<lparr> frequency = Fin 0, magnitude = Fin 1 \<rparr>]
   \<and> sorted_wrt (\<lambda>a b. js_ge (magnitude a) (magnitude b))
        (findDominantFrequencies [Fin 1, Fin 3, Fin 2, Fin 0] 4 4)"
  using findDominantFrequencies_sorted [of "[Fin 1, Fin 3, Fin 2, Fin 0]" 4 4]
  by (simp add: findDominantFrequencies_eval)

text \<open>
  Claim C7 as stated fails: on the flat spectrum \<open>[1, 1, 1, 1]\<close> two bins of equal
  magnitude are returned, so the list is not strictly descending.
\<close>

theorem findDominantFrequencies_ties_counterexample:
  "findDominantFrequencies [Fin 1, Fin 1, Fin 1, Fin 1] 4 4 =
     [\<lparr> frequency = Fin 0, magnitude = Fin 1 \<rparr>, \<lparr> frequency = Fin 1, magnitude = Fin 1 \<rparr>]
   \<and> \<not> sorted_wrt (\<lambda>a b. js_gt (magnitude a) (magnitude b))
        (findDominantFrequencies [Fin 1, Fin 1, Fin 1, Fin 1] 4 4)"
  by (simp add: findDominantFrequencies_eval)

section \<open>The regions of a profile\<close>

lemma analyzeAmplitude_Inr:
  "analyzeAmplitude xs opts = Inr (projr (analyzeAmplitude xs opts))"
  by (simp add: analyzeAmplitude_def Let_def split: prod.splits)

lemma applyProfile_step_eq:
  "applyProfile_step ids audioData p sr ws i st =
     Inr (if window_matches audioData p ws i
          then (fst st @ [region_at (ids (snd st)) audioData p sr ws i], Suc (snd st))
          else st)"
  unfolding applyProfile_step_def window_matches_def region_at_def window_analysis_def Let_def
  by (subst analyzeAmplitude_Inr) simp

lemma applyProfile_loop_invariant:
  assumes ws: "0 < ws"
    and init: "I i st"
    and step: "\<And>j s. j < int (length audioData) - ws \<Longrightarrow> I j s \<Longrightarrow>
                 \<exists>s'. applyProfile_step ids audioData p sr ws j s = Inr s' \<and> I (j + ws) s'"
  shows "\<exists>s' j. applyProfile_loop ids audioData p sr ws i st = Some (Inr s')
           \<and> I j s' \<and> \<not> j < int (length audioData) - ws"
  using init
proof (induction "nat (int (length audioData) - ws - i)" arbitrary: i st rule: less_induct)
  case less
  show ?case
  proof (cases "i < int (length audioData) - ws")
    case False
    then have "applyProfile_loop ids audioData p sr ws i st = Some (Inr st)"
      by (subst applyProfile_loop.simps) simp
    then show ?thesis using less.prems False by blast
  next
    case True
    then obtain s' where s': "applyProfile_step ids audioData p sr ws i st = Inr s'"
      "I (i + ws) s'"
      using step less.prems by blast
    have "nat (int (length audioData) - ws - (i + ws)) < nat (int (length audioData) - ws - i)"
      using True ws by linarith
    then obtain s'' j where
      "applyProfile_loop ids audioData p sr ws (i + ws) s' = Some (Inr s'')"
      "I j s''" "\<not> j < int (length audioData) - ws"
      using less.hyps s'(2) by blast
    moreover have "applyProfile_loop ids audioData p sr ws i st =
        applyProfile_loop ids audioData p sr ws (i + ws) s'"
      using True s'(1) by (subst applyProfile_loop.simps) simp
    ultimately show ?thesis by auto
  qed
qed

lemma regions_upto_step:
  assumes "0 < ws" and "j < int (length audioData) - ws" and "regions_upto audioData p sr ws j (fst s)"
  shows "\<exists>s'. applyProfile_step ids audioData p sr ws j s = Inr s'
           \<and> regions_upto audioData p sr ws (j + ws) (fst s')"
proof -
  have j: "0 \<le> j" "ws dvd j" using assms(3) by (auto simp: regions_upto_def)
  then have jo: "j \<in> window_offsets (length audioData) ws"
    using assms(2) by (simp add: window_offsets_def)
  have below: "\<And>i. i \<in> window_offsets (length audioData) ws \<Longrightarrow> i < j + ws \<Longrightarrow> i < j \<or> i = j"
  proof -
    fix i assume "i \<in> window_offsets (length audioData) ws" "i < j + ws"
    then obtain a where a: "i = ws * a" by (auto simp: window_offsets_def)
    obtain b where b: "j = ws * b" using j(2) by auto
    have "ws * a < ws * (b + 1)" using \<open>i < j + ws\<close> a b by (simp add: algebra_simps)
    then have "a < b + 1" using assms(1) by (simp add: mult_less_cancel_left_pos)
    then have "a < b \<or> a = b" by linarith
    then show "i < j \<or> i = j" using a b assms(1) by auto
  qed
  show ?thesis
  proof (cases "window_matches audioData p ws j")
    case True
    have "regions_upto audioData p sr ws (j + ws)
            (fst s @ [region_at (ids (snd s)) audioData p sr ws j])"
      unfolding regions_upto_def
    proof (intro conjI ballI impI)
      show "0 \<le> j + ws" using j(1) assms(1) by simp
      show "ws dvd j + ws" using j(2) by simp
    next
      fix r assume "r \<in> set (fst s @ [region_at (ids (snd s)) audioData p sr ws j])"
      then consider "r \<in> set (fst s)" | "r = region_at (ids (snd s)) audioData p sr ws j"
        by auto
      then show "\<exists>i u. i \<in> window_offsets (length audioData) ws \<and> i < j + ws
             \<and> window_matches audioData p ws i \<and> r = region_at u audioData p sr ws i"
      proof cases
        case 1
        then obtain i u where "i \<in> window_offsets (length audioData) ws" "i < j"
          "window_matches audioData p ws i" "r = region_at u audioData p sr ws i"
          using assms(3) unfolding regions_upto_def by blast
        then show ?thesis using assms(1) by (intro exI [of _ i] exI [of _ u]) simp
      next
        case 2
        then show ?thesis using jo True assms(1)
          by (intro exI [of _ j] exI [of _ "ids (snd s)"]) simp
      qed
    next
      fix i assume i: "i \<in> window_offsets (length audioData) ws"
        "i < j + ws \<and> window_matches audioData p ws i"
      from below [OF i(1)] i(2) have "i < j \<or> i = j" by simp
      then show "\<exists>u. region_at u audioData p sr ws i
          \<in> set (fst s @ [region_at (ids (snd s)) audioData p sr ws j])"
      proof
        assume "i < j"
        then obtain u where "region_at u audioData p sr ws i \<in> set (fst s)"
          using assms(3) i unfolding regions_upto_def by blast
        then show ?thesis by auto
      next
        assume "i = j"
        then show ?thesis by auto
      qed
    qed
    then show ?thesis using True by (simp add: applyProfile_step_eq)
  next
    case False
    have "regions_upto audioData p sr ws (j + ws) (fst s)"
      unfolding regions_upto_def
    proof (intro conjI ballI impI)
      show "0 \<le> j + ws" using j(1) assms(1) by simp
      show "ws dvd j + ws" using j(2) by simp
    next
      fix r assume "r \<in> set (fst s)"
      then obtain i u where "i \<in> window_offsets (length audioData) ws" "i < j"
          "window_matches audioData p ws i" "r = region_at u audioData p sr ws i"
        using assms(3) unfolding regions_upto_def by blast
      then show "\<exists>i u. i \<in> window_offsets (length audioData) ws \<and> i < j + ws
             \<and> window_matches audioData p ws i \<and> r = region_at u audioData p sr ws i"
        using assms(1) by (intro exI [of _ i] exI [of _ u]) simp
    next
      fix i assume i: "i \<in> window_offsets (length audioData) ws"
        "i < j + ws \<and> window_matches audioData p ws i"
      from below [OF i(1)] i(2) have "i < j \<or> i = j" by simp
      then have "i < j" using False i(2) by auto
      then show "\<exists>u. region_at u audioData p sr ws i \<in> set (fst s)"
        using assms(3) i unfolding regions_upto_def by blast
    qed
    then show ?thesis using False by (simp add: applyProfile_step_eq)
  qed
qed

lemma applyProfile_loop_regions:
  assumes "0 < ws"
  shows "\<exists>regs k'. applyProfile_loop ids audioData p sr ws 0 ([], k) = Some (Inr (regs, k'))
     \<and> (\<forall>r\<in>set regs. \<exists>i u. i \<in> window_offsets (length audioData) ws
             \<and> window_matches audioData p ws i \<and> r = region_at u audioData p sr ws i)
     \<and> (\<forall>i\<in>window_offsets (length audioData) ws. window_matches audioData p ws i
             \<longrightarrow> (\<exists>u. region_at u audioData p sr ws i \<in> set regs))"
proof -
  have init: "regions_upto audioData p sr ws 0 (fst ([], k))"
    by (auto simp: regions_upto_def window_offsets_def)
  obtain s' j where s': "applyProfile_loop ids audioData p sr ws 0 ([], k) = Some (Inr s')"
    "regions_upto audioData p sr ws j (fst s')" "\<not> j < int (length audioData) - ws"
    using applyProfile_loop_invariant
      [where I = "\<lambda>j s. regions_upto audioData p sr ws j (fst s)", OF assms init regions_upto_step [OF assms]]
    by blast
  have all: "\<And>i. i \<in> window_offsets (length audioData) ws \<Longrightarrow> i < j"
    using s'(3) by (auto simp: window_offsets_def)
  have "\<forall>r\<in>set (fst s'). \<exists>i u. i \<in> window_offsets (length audioData) ws
             \<and> window_matches audioData p ws i \<and> r = region_at u audioData p sr ws i"
    using s'(2) unfolding regions_upto_def by blast
  moreover have "\<forall>i\<in>window_offsets (length audioData) ws. window_matches audioData p ws i
             \<longrightarrow> (\<exists>u. region_at u audioData p sr ws i \<in> set (fst s'))"
    using s'(2) all unfolding regions_upto_def by blast
  ultimately show ?thesis using s'(1) by (cases s') auto
qed



lemma applyProfile_loop_nonpositive:
  assumes "applyProfile_loop ids audioData p sr ws i st = Some res"
  shows "ws \<le> 0 \<longrightarrow> i \<le> 0 \<longrightarrow> res = Inr st \<and> \<not> i < int (length audioData) - ws"
proof (rule applyProfile_loop.raw_induct
    [where P = "\<lambda>ids audioData p sr ws i st res.
       ws \<le> 0 \<longrightarrow> i \<le> 0 \<longrightarrow> res = Inr st \<and> \<not> i < int (length audioData) - ws",
     OF _ assms], goal_cases)
  case (1 loop ids audioData p sr ws i st res)
  show ?case
  proof (intro impI)
    assume ws: "ws \<le> 0" and i: "i \<le> 0"
    show "res = Inr st \<and> \<not> i < int (length audioData) - ws"
    proof (cases "i < int (length audioData) - ws")
      case False
      then show ?thesis using 1(2) by simp
    next
      case True
      then have "loop ids audioData p sr ws (i + ws)
         (if window_matches audioData p ws i
          then (fst st @ [region_at (ids (snd st)) audioData p sr ws i], Suc (snd st))
          else st) = Some res"
        using 1(2) by (simp add: applyProfile_step_eq)
      then have "\<not> i + ws < int (length audioData) - ws"
        using 1(1) ws i by (meson add_nonpos_nonpos)
      then show ?thesis using True ws by linarith
    qed
  qed
qed


lemma applyProfile_returns:
  assumes "0 < profile_windowSize p sr"
  shows "\<exists>regs k'. applyProfile ids k audioData p sr = Some (Inr (regs, k'))"
proof -
  obtain regs k' where
    "applyProfile_loop ids audioData p sr (profile_windowSize p sr) 0 ([], k)
      = Some (Inr (regs, k'))"
    using applyProfile_loop_regions [OF assms, of ids audioData p sr k] by blast
  then have "applyProfile ids k audioData p sr = Some (Inr (regs, k'))"
    by (simp add: applyProfile_def Let_def)
  then show ?thesis by blast
qed

lemma applyProfile_regions:
  assumes "applyProfile ids k audioData p sr = Some (Inr (regs, k'))"
  shows "(\<forall>r\<in>set regs. \<exists>i u. i \<in> window_offsets (length audioData) (profile_windowSize p sr)
            \<and> window_matches audioData p (profile_windowSize p sr) i
            \<and> r = region_at u audioData p sr (profile_windowSize p sr) i)
     \<and> (\<forall>i\<in>window_offsets (length audioData) (profile_windowSize p sr).
            window_matches audioData p (profile_windowSize p sr) i
            \<longrightarrow> (\<exists>u. region_at u audioData p sr (profile_windowSize p sr) i \<in> set regs))"
proof (cases "0 < profile_windowSize p sr")
  case True
  have loop: "applyProfile_loop ids audioData p sr (profile_windowSize p sr) 0 ([], k)
      = Some (Inr (regs, k'))"
    using assms by (simp add: applyProfile_def Let_def)
  obtain regs' k'' where r:
    "applyProfile_loop ids audioData p sr (profile_windowSize p sr) 0 ([], k)
      = Some (Inr (regs', k''))"
    "\<forall>r\<in>set regs'. \<exists>i u. i \<in> window_offsets (length audioData) (profile_windowSize p sr)
            \<and> window_matches audioData p (profile_windowSize p sr) i
            \<and> r = region_at u audioData p sr (profile_windowSize p sr) i"
    "\<forall>i\<in>window_offsets (length audioData) (profile_windowSize p sr).
            window_matches audioData p (profile_windowSize p sr) i
            \<longrightarrow> (\<exists>u. region_at u audioData p sr (profile_windowSize p sr) i \<in> set regs')"
    using applyProfile_loop_regions [OF True, of ids audioData p sr k] by blast
  have "regs' = regs" using loop r(1) by simp
  then show ?thesis using r(2,3) by simp
next
  case False
  define ws where "ws = profile_windowSize p sr"
  have loop: "applyProfile_loop ids audioData p sr ws 0 ([], k) = Some (Inr (regs, k'))"
    using assms by (simp add: applyProfile_def Let_def ws_def)
  have "Inr (regs, k') = Inr ([], k) \<and> \<not> 0 < int (length audioData) - ws"
    using applyProfile_loop_nonpositive [OF loop] False by (simp add: ws_def)
  then have "regs = []" "window_offsets (length audioData) ws = {}"
    by (auto simp: window_offsets_def)
  then show ?thesis by (simp add: ws_def)
qed

lemma js_or_nonzero: "d \<noteq> 0 \<Longrightarrow> js_or x d \<noteq> 0"
  by (cases x) auto

lemma js_lt_not_NaN: "js_lt a b \<Longrightarrow> a \<noteq> NaN \<and> b \<noteq> NaN"
  by (cases a; cases b) auto

lemma js_div_not_NaN: "x \<noteq> NaN \<Longrightarrow> m \<noteq> 0 \<Longrightarrow> js_div x (Fin m) \<noteq> NaN"
  by (cases x) auto

lemma js_sub_not_NaN: "y \<noteq> NaN \<Longrightarrow> js_sub (Fin a) y \<noteq> NaN"
  by (cases y) (auto simp: js_sub_def)

lemma js_max_not_NaN: "y \<noteq> NaN \<Longrightarrow> js_max (Fin a) y \<noteq> NaN"
  by (simp add: js_max_def)

lemma js_min_not_NaN: "y \<noteq> NaN \<Longrightarrow> js_min (Fin a) y \<noteq> NaN"
  by (simp add: js_min_def)

lemma clamp_range:
  "c \<noteq> NaN \<Longrightarrow>
   js_le (Fin 0) (js_max (Fin 0) (js_min (Fin 1) c)) \<and> js_le (js_max (Fin 0) (js_min (Fin 1) c)) (Fin 1)"
  by (cases c) (auto simp: js_max_def js_min_def js_le_def)

lemma calculateConfidence_range:
  assumes "profile_matches p w d"
  shows "js_le (Fin 0) (calculateConfidence d p) \<and> js_le (calculateConfidence d p) (Fin 1)"
proof (cases "profile_type p")
  case Quiet
  then have "rms d \<noteq> NaN"
    using assms js_lt_not_NaN by (auto simp: profile_matches_def)
  then have "js_max (Fin 0) (js_sub (Fin 1)
      (js_div (rms d) (Fin (js_or (param_maxAmplitude (parameters p)) 0.1)))) \<noteq> NaN"
    by (intro js_max_not_NaN js_sub_not_NaN js_div_not_NaN js_or_nonzero) simp_all
  then show ?thesis
    using Quiet clamp_range by (simp add: calculateConfidence_def Let_def)
next
  case Intensity
  then have "rms d \<noteq> NaN"
    using assms js_lt_not_NaN by (auto simp: profile_matches_def js_gt_def)
  then have "js_min (Fin 1)
      (js_div (rms d) (Fin (js_or (param_minAmplitude (parameters p)) 0.7))) \<noteq> NaN"
    by (intro js_min_not_NaN js_div_not_NaN js_or_nonzero) simp_all
  then show ?thesis
    using Intensity clamp_range by (simp add: calculateConfidence_def Let_def)
next
  case Transition
  then show ?thesis by (simp add: calculateConfidence_def)
next
  case Custom
  then show ?thesis by (simp add: calculateConfidence_def)
qed

lemma region_at_fields [simp]:
  "region_start (region_at u audioData p sr ws i) = js_div (Fin (of_int i)) (Fin sr)"
  "region_end (region_at u audioData p sr ws i) = js_div (Fin (of_int (i + ws))) (Fin sr)"
  "confidence (region_at u audioData p sr ws i) = calculateConfidence (window_analysis audioData ws i) p"
  "data (region_at u audioData p sr ws i) = window_analysis audioData ws i"
  "region_id (region_at u audioData p sr ws i) = u"
  "region_profile (region_at u audioData p sr ws i) = profile_id p"
  by (simp_all add: region_at_def)

lemma region_at_start_before_end:
  "0 < sr \<Longrightarrow> 0 < ws \<Longrightarrow>
   js_lt (region_start (region_at u audioData p sr ws i)) (region_end (region_at u audioData p sr ws i))"
proof -
  assume sr: "0 < sr" and ws: "0 < ws"
  have "real_of_int i < real_of_int (i + ws)" using ws by simp
  then have "real_of_int i / sr < real_of_int (i + ws) / sr"
    using sr by (rule divide_strict_right_mono)
  then show ?thesis using sr by simp
qed

text \<open>
  Claim C2. For every buffer, every sample rate above zero and every profile whose window
  size \<open>floor(windowSize * sampleRate)\<close> is at least 1, \<open>applyProfile\<close> returns, and
  every region it returns has a confidence in the closed interval from 0 to 1 and a start
  before its end. (The buffer need not be finite for this.)
\<close>

theorem applyProfile_regions_wellformed:
  assumes "0 < sampleRate" and "1 \<le> profile_windowSize profile sampleRate"
  shows "\<exists>regs k'. applyProfile ids k audioData profile sampleRate = Some (Inr (regs, k'))
     \<and> (\<forall>r\<in>set regs. js_le (Fin 0) (confidence r) \<and> js_le (confidence r) (Fin 1)
           \<and> js_lt (region_start r) (region_end r))"
proof -
  define ws where "ws = profile_windowSize profile sampleRate"
  have ws: "0 < ws" using assms(2) by (simp add: ws_def)
  obtain regs k' where r: "applyProfile ids k audioData profile sampleRate = Some (Inr (regs, k'))"
    using applyProfile_returns [of profile sampleRate ids k audioData] ws unfolding ws_def by blast
  have char: "\<forall>r\<in>set regs. \<exists>i u. i \<in> window_offsets (length audioData) ws
            \<and> window_matches audioData profile ws i
            \<and> r = region_at u audioData profile sampleRate ws i"
    using applyProfile_regions [OF r] unfolding ws_def by (rule conjunct1)
  have "\<forall>r\<in>set regs. js_le (Fin 0) (confidence r) \<and> js_le (confidence r) (Fin 1)
           \<and> js_lt (region_start r) (region_end r)"
  proof
    fix r assume "r \<in> set regs"
    with char obtain i u where i: "window_matches audioData profile ws i"
      "r = region_at u audioData profile sampleRate ws i"
      by blast
    have m: "profile_matches profile (slice audioData i (i + ws)) (window_analysis audioData ws i)"
      using i(1) by (simp only: window_matches_def)
    have c: "confidence r = calculateConfidence (window_analysis audioData ws i) profile"
      by (simp only: i(2) region_at_fields)
    have "js_lt (region_start r) (region_end r)"
      unfolding i(2) using assms(1) ws by (rule region_at_start_before_end)
    moreover have "js_le (Fin 0) (confidence r) \<and> js_le (confidence r) (Fin 1)"
      unfolding c using m by (rule calculateConfidence_range)
    ultimately show "js_le (Fin 0) (confidence r) \<and> js_le (confidence r) (Fin 1)
           \<and> js_lt (region_start r) (region_end r)" by simp
  qed
  with r show ?thesis by blast
qed

section \<open>Evaluating the region loop\<close>


lemma applyProfile_loop_continue:
  "i < int (length audioData) - ws \<Longrightarrow>
   applyProfile_loop ids audioData p sr ws i st =
     applyProfile_loop ids audioData p sr ws (i + ws)
       (if window_matches audioData p ws i
        then (fst st @ [region_at (ids (snd st)) audioData p sr ws i], Suc (snd st))
        else st)"
  by (subst applyProfile_loop.simps) (simp add: applyProfile_step_eq)

lemma applyProfile_loop_stop:
  "\<not> i < int (length audioData) - ws \<Longrightarrow>
   applyProfile_loop ids audioData p sr ws i st = Some (Inr st)"
  by (subst applyProfile_loop.simps) simp

lemma analyzeAmplitude_silence:
  "analyzeAmplitude [Fin 0] opts =
     Inr \<lparr> rms = Fin 0, peak = Fin 0, average = Fin 0, dynamicRange = Fin 0,
           crestFactor = Fin 0, zeroCrossings = 0 \<rparr>"
  by (simp add: analyzeAmplitude_def Let_def)

lemmas applyProfile_eval =
  applyProfile_def profile_windowSize_def applyProfile_loop_continue applyProfile_loop_stop
  window_matches_def window_analysis_def region_at_def profile_matches_def
  calculateConfidence_def slice_def Let_def quiet_profile_def intensity_profile_def

theorem applyProfile_regions_wellformed_witness:
  "\<exists>regs k'. applyProfile (\<lambda>n. n) 0 [Fin 0, Fin 0, Fin 0] quiet_profile 1 = Some (Inr (regs, k'))
     \<and> length regs = 2
     \<and> list_all (\<lambda>r. js_le (Fin 0) (confidence r) \<and> js_le (confidence r) (Fin 1)
                      \<and> js_lt (region_start r) (region_end r)) regs"
proof -
  have e: "applyProfile (\<lambda>n. n) 0 [Fin 0, Fin 0, Fin 0] quiet_profile 1 =
     Some (Inr ([silent_region 0 0 1, silent_region 1 1 2], 2))"
    by (simp add: applyProfile_eval analyzeAmplitude_silence silent_region_def)
  have "1 \<le> profile_windowSize quiet_profile 1"
    by (simp add: profile_windowSize_def quiet_profile_def)
  then show ?thesis
    using applyProfile_regions_wellformed
      [where sampleRate = 1 and profile = quiet_profile and ids = "\<lambda>n. n" and k = 0
         and audioData = "[Fin 0, Fin 0, Fin 0]"]
    by (simp add: e)
qed

section \<open>Order of the regions of one profile\<close>

lemma js_lt_le_trans: "js_lt a b \<Longrightarrow> js_le b c \<Longrightarrow> js_lt a c"
  by (cases a; cases b; cases c) (auto simp: js_le_def)

lemma ordered_upto_step:
  assumes sr: "0 < sr" and ws: "0 < ws" and inv: "ordered_upto sr j (fst s)"
  shows "\<exists>s'. applyProfile_step ids audioData p sr ws j s = Inr s'
           \<and> ordered_upto sr (j + ws) (fst s')"
proof -
  have mono: "real_of_int j / sr \<le> real_of_int (j + ws) / sr"
    using sr ws by (intro divide_right_mono) simp_all
  have strict: "real_of_int j / sr < real_of_int (j + ws) / sr"
    using sr ws by (intro divide_strict_right_mono) simp_all
  have old: "\<forall>r\<in>set (fst s). js_lt (region_start r) (region_end r)
            \<and> js_le (region_end r) (Fin (of_int (j + ws) / sr))"
  proof
    fix r assume "r \<in> set (fst s)"
    then have r: "js_lt (region_start r) (region_end r)"
      "js_le (region_end r) (Fin (of_int j / sr))"
      using inv by (auto simp: ordered_upto_def)
    have "js_le (Fin (of_int j / sr)) (Fin (of_int (j + ws) / sr))" using mono by simp
    with r(2) have "js_le (region_end r) (Fin (of_int (j + ws) / sr))" by (rule js_le_trans)
    with r(1) show "js_lt (region_start r) (region_end r)
            \<and> js_le (region_end r) (Fin (of_int (j + ws) / sr))" by simp
  qed
  show ?thesis
  proof (cases "window_matches audioData p ws j")
    case False
    have "ordered_upto sr (j + ws) (fst s)"
      using inv old by (simp add: ordered_upto_def)
    then show ?thesis using False by (simp add: applyProfile_step_eq)
  next
    case True
    define new where "new = region_at (ids (snd s)) audioData p sr ws j"
    have ns: "region_start new = Fin (of_int j / sr)"
      and ne: "region_end new = Fin (of_int (j + ws) / sr)"
      using sr by (simp_all add: new_def)
    have before: "\<forall>r\<in>set (fst s). js_lt (region_start r) (region_start new)
          \<and> js_le (region_end r) (region_start new)"
    proof
      fix r assume "r \<in> set (fst s)"
      then have r: "js_lt (region_start r) (region_end r)"
        "js_le (region_end r) (Fin (of_int j / sr))"
        using inv by (auto simp: ordered_upto_def)
      from r(1) r(2) have "js_lt (region_start r) (Fin (of_int j / sr))" by (rule js_lt_le_trans)
      then show "js_lt (region_start r) (region_start new)
          \<and> js_le (region_end r) (region_start new)" using r(2) ns by simp
    qed
    have "ordered_regions (fst s @ [new])"
      using inv before by (simp add: ordered_regions_def ordered_upto_def sorted_wrt_append)
    moreover have "\<forall>r\<in>set (fst s @ [new]). js_lt (region_start r) (region_end r)
            \<and> js_le (region_end r) (Fin (of_int (j + ws) / sr))"
      using old ns ne strict by simp
    ultimately have "ordered_upto sr (j + ws) (fst s @ [new])"
      by (simp add: ordered_upto_def)
    then show ?thesis using True by (simp add: applyProfile_step_eq new_def)
  qed
qed

text \<open>
  Claim C10. For a single profile with window size at least 1 and a sample rate above
  zero, the regions \<open>applyProfile\<close> returns are in strictly increasing order of start,
  and each region ends no later than any later region starts.
\<close>

theorem applyProfile_regions_ordered:
  assumes "0 < sampleRate" and "1 \<le> profile_windowSize profile sampleRate"
  shows "\<exists>regs k'. applyProfile ids k audioData profile sampleRate = Some (Inr (regs, k'))
     \<and> sorted_wrt (\<lambda>a b. js_lt (region_start a) (region_start b)
                         \<and> js_le (region_end a) (region_start b)) regs"
proof -
  define ws where "ws = profile_windowSize profile sampleRate"
  have ws: "0 < ws" using assms(2) by (simp add: ws_def)
  have init: "ordered_upto sampleRate 0 (fst ([], k))"
    by (simp add: ordered_upto_def ordered_regions_def)
  obtain s' j where s':
    "applyProfile_loop ids audioData profile sampleRate ws 0 ([], k) = Some (Inr s')"
    "ordered_upto sampleRate j (fst s')"
    using applyProfile_loop_invariant
      [where I = "\<lambda>j s. ordered_upto sampleRate j (fst s)", OF ws init
        ordered_upto_step [OF assms(1) ws]]
    by blast
  have "applyProfile ids k audioData profile sampleRate = Some (Inr (fst s', snd s'))"
    using s'(1) by (simp add: applyProfile_def Let_def ws_def)
  moreover have "sorted_wrt (\<lambda>a b. js_lt (region_start a) (region_start b)
                         \<and> js_le (region_end a) (region_start b)) (fst s')"
    using s'(2) by (simp add: ordered_upto_def ordered_regions_def)
  ultimately show ?thesis by blast
qed

theorem applyProfile_regions_ordered_witness:
  "\<exists>regs k'. applyProfile (\<lambda>n. n) 5 [Fin 0, Fin 0, Fin 0, Fin 0] quiet_profile 1
       = Some (Inr (regs, k'))
     \<and> length regs = 3
     \<and> sorted_wrt (\<lambda>a b. js_lt (region_start a) (region_start b)
                         \<and> js_le (region_end a) (region_start b)) regs"
proof -
  have e: "applyProfile (\<lambda>n. n) 5 [Fin 0, Fin 0, Fin 0, Fin 0] quiet_profile 1 =
     Some (Inr ([silent_region 5 0 1, silent_region 6 1 2, silent_region 7 2 3], 8))"
    by (simp add: applyProfile_eval analyzeAmplitude_silence silent_region_def)
  have "1 \<le> profile_windowSize quiet_profile 1"
    by (simp add: profile_windowSize_def quiet_profile_def)
  then show ?thesis
    using applyProfile_regions_ordered
      [where sampleRate = 1 and profile = quiet_profile and ids = "\<lambda>n. n" and k = 5
         and audioData = "[Fin 0, Fin 0, Fin 0, Fin 0]"]
    by (simp add: e)
qed



section \<open>Match predicates and confidence\<close>

lemma clamp01_max: "clamp01 (js_max (Fin 0) y) = clamp01 y"
  by (cases y) (auto simp: clamp01_def js_max_def js_min_def)

lemma clamp01_min: "clamp01 (js_min (Fin 1) y) = clamp01 y"
  by (cases y) (auto simp: clamp01_def js_max_def js_min_def)

lemma calculateConfidence_Quiet:
  "profile_type p = Quiet \<Longrightarrow>
   calculateConfidence d p =
     clamp01 (js_sub (Fin 1) (js_div (rms d) (Fin (js_or (param_maxAmplitude (parameters p)) 0.1))))"
  using clamp01_max by (simp add: calculateConfidence_def Let_def clamp01_def)

lemma calculateConfidence_Intensity:
  "profile_type p = Intensity \<Longrightarrow>
   calculateConfidence d p =
     clamp01 (js_div (rms d) (Fin (js_or (param_minAmplitude (parameters p)) 0.7)))"
  using clamp01_min by (simp add: calculateConfidence_def Let_def clamp01_def)

lemma clamp01_above: "js_gt x (Fin m) \<Longrightarrow> 0 < m \<Longrightarrow> clamp01 (js_div x (Fin m)) = Fin 1"
proof (cases x)
  case (Fin a)
  assume "js_gt x (Fin m)" "0 < m"
  then have "1 < a / m" using Fin by simp
  then show ?thesis using Fin \<open>0 < m\<close> by (simp add: clamp01_def)
qed (auto simp: clamp01_def js_gt_def js_min_def js_max_def)

lemma applyProfile_positive_window:
  assumes "applyProfile ids k audioData p sr = Some res"
    and "i \<in> window_offsets (length audioData) (profile_windowSize p sr)"
  shows "0 < profile_windowSize p sr" and "sr \<noteq> 0"
proof -
  show ws: "0 < profile_windowSize p sr"
  proof (rule ccontr)
    assume "\<not> 0 < profile_windowSize p sr"
    then have "\<not> 0 < int (length audioData) - profile_windowSize p sr"
      using applyProfile_loop_nonpositive [of ids audioData p sr "profile_windowSize p sr" 0 "([], k)" res]
        assms(1) by (simp add: applyProfile_def Let_def)
    then show False using assms(2) by (auto simp: window_offsets_def)
  qed
  show "sr \<noteq> 0"
  proof
    assume "sr = 0"
    then have "profile_windowSize p sr = 0" by (simp add: profile_windowSize_def)
    then show False using ws by simp
  qed
qed

lemma window_start_inject: "sr \<noteq> 0 \<Longrightarrow> window_start sr i = window_start sr j \<Longrightarrow> i = j"
  by (simp add: window_start_def)

text \<open>A region starts at a visited offset exactly when the window there matches, and it
  then carries the descriptor and the confidence of that window.\<close>

lemma applyProfile_emitted:
  assumes ret: "applyProfile ids k audioData p sr = Some (Inr (regs, k'))"
    and i: "i \<in> window_offsets (length audioData) (profile_windowSize p sr)"
  shows "emitted_at regs sr i = window_matches audioData p (profile_windowSize p sr) i"
    and "\<forall>r\<in>set regs. region_start r = window_start sr i \<longrightarrow>
           data r = window_analysis audioData (profile_windowSize p sr) i
         \<and> confidence r = calculateConfidence (window_analysis audioData (profile_windowSize p sr) i) p"
proof -
  define ws where "ws = profile_windowSize p sr"
  have sr: "sr \<noteq> 0" using applyProfile_positive_window(2) [OF ret i] .
  have sound: "\<forall>r\<in>set regs. \<exists>j u. j \<in> window_offsets (length audioData) ws
            \<and> window_matches audioData p ws j \<and> r = region_at u audioData p sr ws j"
    and complete: "\<forall>j\<in>window_offsets (length audioData) ws. window_matches audioData p ws j
            \<longrightarrow> (\<exists>u. region_at u audioData p sr ws j \<in> set regs)"
    using applyProfile_regions [OF ret] unfolding ws_def by (rule conjunct1, rule conjunct2)
  have at: "window_matches audioData p ws i \<and> (\<exists>u. r = region_at u audioData p sr ws i)"
    if "r \<in> set regs" "region_start r = window_start sr i" for r
  proof -
    from sound that(1)
    have "\<exists>j u. j \<in> window_offsets (length audioData) ws
            \<and> window_matches audioData p ws j \<and> r = region_at u audioData p sr ws j"
      by (rule bspec)
    then obtain j u where j: "window_matches audioData p ws j" "r = region_at u audioData p sr ws j"
      by (elim exE conjE)
    have "region_start r = window_start sr j"
      by (simp only: j(2) region_at_fields window_start_def)
    then have "window_start sr j = window_start sr i"
      using that(2) by (simp only:)
    with sr have ji: "j = i" by (rule window_start_inject)
    have "window_matches audioData p ws i" using j(1) by (simp only: ji)
    moreover have "r = region_at u audioData p sr ws i" using j(2) by (simp only: ji)
    ultimately show ?thesis by (intro conjI exI)
  qed
  show "emitted_at regs sr i = window_matches audioData p (profile_windowSize p sr) i"
  proof
    assume "emitted_at regs sr i"
    then obtain r where "r \<in> set regs" "region_start r = window_start sr i"
      by (auto simp: emitted_at_def)
    then show "window_matches audioData p (profile_windowSize p sr) i"
      using at unfolding ws_def by blast
  next
    assume "window_matches audioData p (profile_windowSize p sr) i"
    then obtain u where "region_at u audioData p sr ws i \<in> set regs"
      using complete i unfolding ws_def by blast
    moreover have "region_start (region_at u audioData p sr ws i) = window_start sr i"
      by (simp only: region_at_fields window_start_def)
    ultimately show "emitted_at regs sr i" unfolding emitted_at_def by blast
  qed
  show "\<forall>r\<in>set regs. region_start r = window_start sr i \<longrightarrow>
           data r = window_analysis audioData (profile_windowSize p sr) i
         \<and> confidence r = calculateConfidence (window_analysis audioData (profile_windowSize p sr) i) p"
  proof (intro ballI impI)
    fix r assume "r \<in> set regs" "region_start r = window_start sr i"
    then obtain u where "r = region_at u audioData p sr ws i" using at by blast
    then show "data r = window_analysis audioData (profile_windowSize p sr) i
         \<and> confidence r = calculateConfidence (window_analysis audioData (profile_windowSize p sr) i) p"
      by (simp only: region_at_fields ws_def simp_thms)
  qed
qed

lemma applyProfile_region_offsets:
  assumes "applyProfile ids k audioData p sr = Some (Inr (regs, k'))" and "r \<in> set regs"
  obtains i where "i \<in> window_offsets (length audioData) (profile_windowSize p sr)"
    and "region_start r = window_start sr i"
    and "confidence r = calculateConfidence (window_analysis audioData (profile_windowSize p sr) i) p"
    and "window_matches audioData p (profile_windowSize p sr) i"
proof -
  obtain i u where i: "i \<in> window_offsets (length audioData) (profile_windowSize p sr)"
    "window_matches audioData p (profile_windowSize p sr) i"
    "r = region_at u audioData p sr (profile_windowSize p sr) i"
    using applyProfile_regions [OF assms(1)] assms(2) by blast
  have "region_start r = window_start sr i"
    by (simp only: i(3) region_at_fields window_start_def)
  moreover have "confidence r = calculateConfidence (window_analysis audioData (profile_windowSize p sr) i) p"
    by (simp only: i(3) region_at_fields)
  ultimately show thesis using i(1,2) that by simp
qed

lemma quiet_emitted:
  assumes "applyProfile ids k audioData p sr = Some (Inr (regs, k'))"
    and "i \<in> profile_offsets audioData p sr" and "profile_type p = Quiet"
  shows "emitted_at regs sr i =
     js_lt (window_rms audioData p sr i) (Fin (js_or (param_maxAmplitude (parameters p)) 0.1))"
  using applyProfile_emitted(1) [OF assms(1) assms(2) [unfolded profile_offsets_def]] assms(3)
  by (simp add: window_matches_def profile_matches_def window_rms_def)

lemma intensity_emitted:
  assumes "applyProfile ids k audioData p sr = Some (Inr (regs, k'))"
    and "i \<in> profile_offsets audioData p sr" and "profile_type p = Intensity"
  shows "emitted_at regs sr i =
     js_gt (window_rms audioData p sr i) (Fin (js_or (param_minAmplitude (parameters p)) 0.7))"
  using applyProfile_emitted(1) [OF assms(1) assms(2) [unfolded profile_offsets_def]] assms(3)
  by (simp add: window_matches_def profile_matches_def window_rms_def)

lemma quiet_confidence:
  assumes "applyProfile ids k audioData p sr = Some (Inr (regs, k'))"
    and "i \<in> profile_offsets audioData p sr" and "profile_type p = Quiet"
    and "r \<in> set regs" and "region_start r = window_start sr i"
  shows "confidence r =
     clamp01 (js_sub (Fin 1) (js_div (window_rms audioData p sr i)
        (Fin (js_or (param_maxAmplitude (parameters p)) 0.1))))"
proof -
  have "confidence r = calculateConfidence (window_analysis audioData (profile_windowSize p sr) i) p"
    using applyProfile_emitted(2) [OF assms(1) assms(2) [unfolded profile_offsets_def]]
      assms(4) assms(5) by simp
  then show ?thesis
    by (simp only: calculateConfidence_Quiet [OF assms(3)] window_rms_def)
qed

lemma intensity_confidence:
  assumes "applyProfile ids k audioData p sr = Some (Inr (regs, k'))"
    and "profile_type p = Intensity" and "0 < js_or (param_minAmplitude (parameters p)) 0.7"
    and "r \<in> set regs"
  shows "confidence r = Fin 1"
proof -
  obtain i where i:
    "confidence r = calculateConfidence (window_analysis audioData (profile_windowSize p sr) i) p"
    "window_matches audioData p (profile_windowSize p sr) i"
    using applyProfile_region_offsets [OF assms(1) assms(4)] by metis
  have "js_gt (rms (window_analysis audioData (profile_windowSize p sr) i))
          (Fin (js_or (param_minAmplitude (parameters p)) 0.7))"
    using i(2) assms(2) by (simp add: window_matches_def profile_matches_def)
  then have "clamp01 (js_div (rms (window_analysis audioData (profile_windowSize p sr) i))
          (Fin (js_or (param_minAmplitude (parameters p)) 0.7))) = Fin 1"
    using assms(3) by (rule clamp01_above)
  then show ?thesis
    by (simp only: i(1) calculateConfidence_Intensity [OF assms(2)])
qed

section \<open>Intensity profiles\<close>

lemma analyzeAmplitude_unit:
  "analyzeAmplitude [Fin 1] opts =
     Inr \<lparr> rms = Fin 1, peak = Fin 1, average = Fin 1, dynamicRange = Fin 0,
           crestFactor = Fin 1, zeroCrossings = 0 \<rparr>"
  by (simp add: analyzeAmplitude_def Let_def)

text \<open>
  Claim C9, as the code has it. For an Intensity profile whose threshold
  \<open>minAmplitude || 0.7\<close> is positive, \<open>applyProfile\<close> returns when the window size is at
  least 1, and every region it returns has confidence exactly 1.
\<close>

theorem applyProfile_intensity_confidence:
  assumes "profile_type p = Intensity" and "0 < js_or (param_minAmplitude (parameters p)) 0.7"
  shows "(1 \<le> profile_windowSize p sr \<longrightarrow>
            (\<exists>regs k'. applyProfile ids k audioData p sr = Some (Inr (regs, k'))))
     \<and> (\<forall>regs k'. applyProfile ids k audioData p sr = Some (Inr (regs, k')) \<longrightarrow>
            (\<forall>r\<in>set regs. confidence r = Fin 1))"
proof (intro conjI impI allI ballI)
  assume "1 \<le> profile_windowSize p sr"
  then have "0 < profile_windowSize p sr" by simp
  then show "\<exists>regs k'. applyProfile ids k audioData p sr = Some (Inr (regs, k'))"
    by (rule applyProfile_returns)
next
  fix regs k' r
  assume "applyProfile ids k audioData p sr = Some (Inr (regs, k'))" and "r \<in> set regs"
  then show "confidence r = Fin 1"
    using assms by (intro intensity_confidence [where regs = regs and p = p])
qed

theorem applyProfile_intensity_confidence_witness:
  "\<exists>regs k'. applyProfile (\<lambda>n. n) 0 [Fin 1, Fin 1, Fin 1] intensity_profile 1
        = Some (Inr (regs, k'))
     \<and> length regs = 2 \<and> list_all (\<lambda>r. confidence r = Fin 1) regs"
proof -
  have e: "applyProfile (\<lambda>n. n) 0 [Fin 1, Fin 1, Fin 1] intensity_profile 1 =
     Some (Inr ([unit_region 0 0 1 ''intensity-profile'' 1,
                 unit_region 1 1 2 ''intensity-profile'' 1], 2))"
    by (simp add: applyProfile_eval analyzeAmplitude_unit unit_region_def)
  have "profile_type intensity_profile = Intensity"
    "0 < js_or (param_minAmplitude (parameters intensity_profile)) 0.7"
    by (simp_all add: intensity_profile_def)
  from applyProfile_intensity_confidence [OF this, of 1 "\<lambda>n. n" 0 "[Fin 1, Fin 1, Fin 1]"]
  show ?thesis by (simp add: e)
qed

text \<open>
  Claim C9 as stated fails for a negative \<open>minAmplitude\<close>: every window of non-negative
  \<open>rms\<close> matches, and \<open>rms / minAmplitude\<close> is clamped to 0.
\<close>

theorem applyProfile_intensity_counterexample:
  "applyProfile (\<lambda>n. n) 0 [Fin 1, Fin 1]
     (intensity_profile \<lparr> parameters :=
        (parameters intensity_profile) \<lparr> param_minAmplitude := Some (- 1) \<rparr> \<rparr>) 1
   = Some (Inr ([unit_region 0 0 1 ''intensity-profile'' 0], 1))
   \<and> confidence (unit_region 0 0 1 ''intensity-profile'' 0) \<noteq> Fin 1"
  by (simp add: applyProfile_eval analyzeAmplitude_unit unit_region_def)

section \<open>Quiet and intensity profiles, window by window\<close>


lemma clamp01_half: "clamp01 (js_sub (Fin 1) (js_div (Fin 0.05) (Fin 0.1))) = Fin 0.5"
  by (simp add: clamp01_def)

lemma quiet_example:
  assumes ret: "applyProfile ids k audioData p sr = Some (Inr (regs, k'))"
    and i: "i \<in> profile_offsets audioData p sr" and q: "profile_type p = Quiet"
    and m: "js_or (param_maxAmplitude (parameters p)) 0.1 = 0.1"
    and x: "window_rms audioData p sr i = Fin 0.05"
  shows "\<exists>r\<in>set regs. region_start r = window_start sr i \<and> confidence r = Fin 0.5"
proof -
  have "emitted_at regs sr i" using quiet_emitted [OF ret i q] m x by simp
  then obtain r where r: "r \<in> set regs" "region_start r = window_start sr i"
    unfolding emitted_at_def by (elim bexE)
  have "confidence r = Fin 0.5"
    using quiet_confidence [OF ret i q r] clamp01_half by (simp only: m x)
  with r show ?thesis by (intro bexI conjI)
qed

lemma intensity_example:
  assumes ret: "applyProfile ids k audioData p sr = Some (Inr (regs, k'))"
    and i: "i \<in> profile_offsets audioData p sr" and q: "profile_type p = Intensity"
    and m: "js_or (param_minAmplitude (parameters p)) 0.7 = 0.7"
    and x: "window_rms audioData p sr i = Fin 0.35"
  shows "\<not> emitted_at regs sr i"
  using intensity_emitted [OF ret i q] m x by simp

lemma regions_at_offsets:
  assumes "applyProfile ids k audioData p sr = Some (Inr (regs, k'))" and "r \<in> set regs"
  shows "\<exists>i\<in>profile_offsets audioData p sr. region_start r = window_start sr i"
proof -
  obtain i where "i \<in> window_offsets (length audioData) (profile_windowSize p sr)"
    "region_start r = window_start sr i"
    using applyProfile_region_offsets [OF assms] by metis
  then show ?thesis unfolding profile_offsets_def by (intro bexI)
qed

lemma sqrt_400 [simp]: "sqrt (1 / 400) = 1 / 20" "sqrt (49 / 400) = 7 / 20"
  by (rule real_sqrt_unique; simp add: power2_eq_square)+

lemma window_rms_examples:
  "window_rms [Fin 0.05, Fin 0.05] quiet_profile 1 0 = Fin 0.05"
  "window_rms [Fin 0.35, Fin 0.35] intensity_profile 1 0 = Fin 0.35"
  by (simp_all add: window_rms_def window_analysis_def profile_windowSize_def slice_def
      analyzeAmplitude_def Let_def quiet_profile_def intensity_profile_def)

lemma profile_offsets_examples:
  "0 \<in> profile_offsets [Fin 0.05, Fin 0.05] quiet_profile 1"
  "0 \<in> profile_offsets [Fin 0.35, Fin 0.35] intensity_profile 1"
  by (simp_all add: profile_offsets_def window_offsets_def profile_windowSize_def
      quiet_profile_def intensity_profile_def)

text \<open>
  Claim C4, as the code has it. Let \<open>m\<close> be the threshold of a Quiet profile,
  \<open>maxAmplitude || 0.1\<close>: the given \<open>maxAmplitude\<close>, or 0.1 when it is missing or zero.
  When \<open>applyProfile\<close> returns (it does when the window size is at least 1), every region
  starts at a visited window; a region starts at a visited window exactly when the
  \<open>rms\<close> of that window is strictly below \<open>m\<close>, and its confidence is
  \<open>clamp(1 - rms / m, 0, 1)\<close>; with \<open>m = 0.1\<close> a window of \<open>rms\<close> 0.05 gets a region of
  confidence 0.5. For an Intensity profile a region starts at a visited window exactly
  when the \<open>rms\<close> exceeds \<open>minAmplitude || 0.7\<close>; with threshold 0.7 a window of
  \<open>rms\<close> 0.35 gets no region.
\<close>

theorem applyProfile_match_and_confidence:
  "(1 \<le> profile_windowSize p sr \<longrightarrow>
       (\<exists>regs k'. applyProfile ids k audioData p sr = Some (Inr (regs, k'))))
   \<and> (\<forall>regs k'. applyProfile ids k audioData p sr = Some (Inr (regs, k')) \<longrightarrow>
        (\<forall>r\<in>set regs. \<exists>i\<in>profile_offsets audioData p sr. region_start r = window_start sr i)
      \<and> (\<forall>i\<in>profile_offsets audioData p sr.
            (profile_type p = Quiet \<longrightarrow>
                emitted_at regs sr i =
                  js_lt (window_rms audioData p sr i)
                    (Fin (js_or (param_maxAmplitude (parameters p)) 0.1))
              \<and> (\<forall>r\<in>set regs. region_start r = window_start sr i \<longrightarrow>
                    confidence r =
                      clamp01 (js_sub (Fin 1) (js_div (window_rms audioData p sr i)
                         (Fin (js_or (param_maxAmplitude (parameters p)) 0.1)))))
              \<and> (js_or (param_maxAmplitude (parameters p)) 0.1 = 0.1
                    \<and> window_rms audioData p sr i = Fin 0.05 \<longrightarrow>
                  (\<exists>r\<in>set regs. region_start r = window_start sr i \<and> confidence r = Fin 0.5)))
          \<and> (profile_type p = Intensity \<longrightarrow>
                emitted_at regs sr i =
                  js_gt (window_rms audioData p sr i)
                    (Fin (js_or (param_minAmplitude (parameters p)) 0.7))
              \<and> (js_or (param_minAmplitude (parameters p)) 0.7 = 0.7
                    \<and> window_rms audioData p sr i = Fin 0.35 \<longrightarrow>
                  \<not> emitted_at regs sr i))))"
proof (intro conjI impI allI ballI)
  assume "1 \<le> profile_windowSize p sr"
  then have "0 < profile_windowSize p sr" by simp
  then show "\<exists>regs k'. applyProfile ids k audioData p sr = Some (Inr (regs, k'))"
    by (rule applyProfile_returns)
next
  fix regs k' r
  assume "applyProfile ids k audioData p sr = Some (Inr (regs, k'))" "r \<in> set regs"
  then show "\<exists>i\<in>profile_offsets audioData p sr. region_start r = window_start sr i"
    by (rule regions_at_offsets)
next
  fix regs k' i
  assume "applyProfile ids k audioData p sr = Some (Inr (regs, k'))"
    "i \<in> profile_offsets audioData p sr" "profile_type p = Quiet"
  then show "emitted_at regs sr i =
      js_lt (window_rms audioData p sr i) (Fin (js_or (param_maxAmplitude (parameters p)) 0.1))"
    by (rule quiet_emitted)
next
  fix regs k' i r
  assume "applyProfile ids k audioData p sr = Some (Inr (regs, k'))"
    "i \<in> profile_offsets audioData p sr" "profile_type p = Quiet"
    "r \<in> set regs" "region_start r = window_start sr i"
  then show "confidence r =
      clamp01 (js_sub (Fin 1) (js_div (window_rms audioData p sr i)
         (Fin (js_or (param_maxAmplitude (parameters p)) 0.1))))"
    by (rule quiet_confidence)
next
  fix regs k' i
  assume a: "applyProfile ids k audioData p sr = Some (Inr (regs, k'))"
    "i \<in> profile_offsets audioData p sr" "profile_type p = Quiet"
    and b: "js_or (param_maxAmplitude (parameters p)) 0.1 = 0.1
          \<and> window_rms audioData p sr i = Fin 0.05"
  show "\<exists>r\<in>set regs. region_start r = window_start sr i \<and> confidence r = Fin 0.5"
    using a b [THEN conjunct1] b [THEN conjunct2] by (rule quiet_example)
next
  fix regs k' i
  assume "applyProfile ids k audioData p sr = Some (Inr (regs, k'))"
    "i \<in> profile_offsets audioData p sr" "profile_type p = Intensity"
  then show "emitted_at regs sr i =
      js_gt (window_rms audioData p sr i) (Fin (js_or (param_minAmplitude (parameters p)) 0.7))"
    by (rule intensity_emitted)
next
  fix regs k' i
  assume a: "applyProfile ids k audioData p sr = Some (Inr (regs, k'))"
    "i \<in> profile_offsets audioData p sr" "profile_type p = Intensity"
    and b: "js_or (param_minAmplitude (parameters p)) 0.7 = 0.7
          \<and> window_rms audioData p sr i = Fin 0.35"
  show "\<not> emitted_at regs sr i"
    using a b [THEN conjunct1] b [THEN conjunct2] by (rule intensity_example)
qed


theorem applyProfile_match_and_confidence_witness:
  "(\<exists>regs k'. applyProfile (\<lambda>n. n) 0 [Fin 0.05, Fin 0.05] quiet_profile 1 = Some (Inr (regs, k'))
      \<and> (\<exists>r\<in>set regs. region_start r = window_start 1 0 \<and> confidence r = Fin 0.5))
   \<and> (\<exists>regs k'. applyProfile (\<lambda>n. n) 0 [Fin 0.35, Fin 0.35] intensity_profile 1
          = Some (Inr (regs, k'))
      \<and> \<not> emitted_at regs 1 0)"
proof
  let ?a = "[Fin 0.05, Fin 0.05]"
  note t = applyProfile_match_and_confidence [of quiet_profile 1 "\<lambda>n. n" 0 ?a]
  have "1 \<le> profile_windowSize quiet_profile 1"
    by (simp add: profile_windowSize_def quiet_profile_def)
  then obtain regs k' where ret:
    "applyProfile (\<lambda>n. n) 0 ?a quiet_profile 1 = Some (Inr (regs, k'))"
    using t [THEN conjunct1] by (elim impE exE)
  have q: "profile_type quiet_profile = Quiet" by (simp add: quiet_profile_def)
  have m: "js_or (param_maxAmplitude (parameters quiet_profile)) 0.1 = 0.1
      \<and> window_rms ?a quiet_profile 1 0 = Fin 0.05"
    by (intro conjI) (simp add: quiet_profile_def, rule window_rms_examples(1))
  have "\<exists>r\<in>set regs. region_start r = window_start 1 0 \<and> confidence r = Fin 0.5"
    using t [THEN conjunct2, THEN spec, THEN spec, THEN mp, OF ret, THEN conjunct2, THEN bspec,
        OF profile_offsets_examples(1), THEN conjunct1, THEN mp, OF q,
        THEN conjunct2, THEN conjunct2, THEN mp, OF m] .
  with ret show "\<exists>regs k'. applyProfile (\<lambda>n. n) 0 ?a quiet_profile 1 = Some (Inr (regs, k'))
      \<and> (\<exists>r\<in>set regs. region_start r = window_start 1 0 \<and> confidence r = Fin 0.5)"
    by (intro exI conjI)
next
  let ?a = "[Fin 0.35, Fin 0.35]"
  note t = applyProfile_match_and_confidence [of intensity_profile 1 "\<lambda>n. n" 0 ?a]
  have "1 \<le> profile_windowSize intensity_profile 1"
    by (simp add: profile_windowSize_def intensity_profile_def)
  then obtain regs k' where ret:
    "applyProfile (\<lambda>n. n) 0 ?a intensity_profile 1 = Some (Inr (regs, k'))"
    using t [THEN conjunct1] by (elim impE exE)
  have q: "profile_type intensity_profile = Intensity" by (simp add: intensity_profile_def)
  have m: "js_or (param_minAmplitude (parameters intensity_profile)) 0.7 = 0.7
      \<and> window_rms ?a intensity_profile 1 0 = Fin 0.35"
    by (intro conjI) (simp add: intensity_profile_def, rule window_rms_examples(2))
  have "\<not> emitted_at regs 1 0"
    using t [THEN conjunct2, THEN spec, THEN spec, THEN mp, OF ret, THEN conjunct2, THEN bspec,
        OF profile_offsets_examples(2), THEN conjunct2, THEN mp, OF q,
        THEN conjunct2, THEN mp, OF m] .
  with ret show "\<exists>regs k'. applyProfile (\<lambda>n. n) 0 ?a intensity_profile 1 = Some (Inr (regs, k'))
      \<and> \<not> emitted_at regs 1 0"
    by (intro exI conjI)
qed

text \<open>
  Claim C4 as stated fails for \<open>maxAmplitude = 0\<close>: the threshold falls back to 0.1, and
  a silent window, whose \<open>rms\<close> 0 is not below 0, gets a region.
\<close>

theorem applyProfile_quiet_zero_counterexample:
  "applyProfile (\<lambda>n. n) 0 [Fin 0, Fin 0]
     (quiet_profile \<lparr> parameters :=
        (parameters quiet_profile) \<lparr> param_maxAmplitude := Some 0 \<rparr> \<rparr>) 1
   = Some (Inr ([silent_region 0 0 1], 1))
   \<and> \<not> js_lt (rms (data (silent_region 0 0 1))) (Fin 0)"
  by (simp add: applyProfile_eval analyzeAmplitude_silence silent_region_def)



section \<open>Pattern detection on a silent buffer\<close>

lemma detectPatterns_loop_continue:
  "i < int (length audioData) - ws \<Longrightarrow>
   detectPatterns_loop audioData sr th ws i acc =
     detectPatterns_loop audioData sr th ws (i + ws)
       (let r = calculateRMS (slice audioData i (i + ws));
            entry = \<lparr> section_start = js_div (Fin (of_int i)) (Fin sr),
                      section_end = js_div (Fin (of_int (i + ws))) (Fin sr),
                      section_rms = r \<rparr>
        in if js_lt r (Fin th) then (fst acc @ [entry], snd acc)
           else if js_gt r (Fin 0.7) then (fst acc, snd acc @ [entry])
           else acc)"
  by (subst detectPatterns_loop.simps) (simp add: Let_def)

lemma detectPatterns_loop_stop:
  "\<not> i < int (length audioData) - ws \<Longrightarrow>
   detectPatterns_loop audioData sr th ws i acc = Some acc"
  by (subst detectPatterns_loop.simps) simp

lemma detectTransitions_loop_continue:
  "i < int (length audioData) - ws \<Longrightarrow>
   detectTransitions_loop audioData sr th ws i acc =
     detectTransitions_loop audioData sr th ws (i + ws)
       (let before = calculateRMS (slice audioData (i - ws) i);
            after = calculateRMS (slice audioData i (i + ws));
            delta = js_abs (js_sub after before)
        in if js_gt delta (Fin th)
           then acc @ [\<lparr> time = js_div (Fin (of_int i)) (Fin sr), change = delta,
                         direction = (if js_gt after before then ''increasing'' else ''decreasing'') \<rparr>]
           else acc)"
  by (subst detectTransitions_loop.simps) (simp add: Let_def)

lemma detectTransitions_loop_stop:
  "\<not> i < int (length audioData) - ws \<Longrightarrow>
   detectTransitions_loop audioData sr th ws i acc = Some acc"
  by (subst detectTransitions_loop.simps) simp

lemma calculateRMS_loop_silence: "calculateRMS_loop (replicate n (Fin 0)) (Fin 0) = Fin 0"
  by (induction n) simp_all

lemma calculateRMS_silence: "calculateRMS (replicate n (Fin 0)) = (if n = 0 then NaN else Fin 0)"
  by (simp add: calculateRMS_def calculateRMS_loop_silence inf_times_def)

lemma slice_replicate:
  assumes "0 \<le> i" and "i \<le> j" and "j \<le> int n"
  shows "slice (replicate n x) i j = replicate (nat (j - i)) x"
proof -
  have "nat (j - i) \<le> n - nat i" using assms by linarith
  then have "min (nat (j - i)) (n - nat i) = nat (j - i)" by simp
  then show ?thesis using assms by (simp add: slice_def Let_def)
qed

lemma patterns_loop_silent_second:
  "detectPatterns_loop (replicate 44100 (Fin 0)) 44100 0.1 4410 0 ([], []) =
     Some ([quiet_section 0 0.1, quiet_section 0.1 0.2, quiet_section 0.2 0.3,
            quiet_section 0.3 0.4, quiet_section 0.4 0.5, quiet_section 0.5 0.6,
            quiet_section 0.6 0.7, quiet_section 0.7 0.8, quiet_section 0.8 0.9], [])"
  by (simp add: detectPatterns_loop_continue detectPatterns_loop_stop slice_replicate
      calculateRMS_silence quiet_section_def Let_def)

lemma transitions_loop_silent_second:
  "detectTransitions_loop (replicate 44100 (Fin 0)) 44100 0.1 4410 4410 [] = Some []"
  by (simp add: detectTransitions_loop_continue detectTransitions_loop_stop slice_replicate
      calculateRMS_silence Let_def)


text \<open>
  Claim C3 at its input: one second of silence at 44100 Hz, default pattern options. The
  window size is 4410 samples and the loop runs while \<open>i < 44100 - 4410\<close>, so it visits
  the offsets 0, 4410, ..., 35280 and stops at 39690: nine windows are classified quiet,
  and the tenth, from 0.9 s to 1.0 s, is never looked at. No loud section and no
  transition is reported.
\<close>

theorem detectPatterns_silent_second:
  "detectPatterns (replicate 44100 (Fin 0)) (no_options \<lparr> opt_sampleRate := Some 44100 \<rparr>) =
     Some \<lparr> quietSections =
              [quiet_section 0 0.1, quiet_section 0.1 0.2, quiet_section 0.2 0.3,
               quiet_section 0.3 0.4, quiet_section 0.4 0.5, quiet_section 0.5 0.6,
               quiet_section 0.6 0.7, quiet_section 0.7 0.8, quiet_section 0.8 0.9],
            loudSections = [], transitions = [], repetitivePatterns = [] \<rparr>
   \<and> detectPatterns (replicate 44100 (Fin 0)) no_options =
       detectPatterns (replicate 44100 (Fin 0)) (no_options \<lparr> opt_sampleRate := Some 44100 \<rparr>)"
proof -
  have ws: "\<lfloor>(1 / 10 :: real) * 44100\<rfloor> = 4410" by simp
  have "detectPatterns (replicate 44100 (Fin 0)) (no_options \<lparr> opt_sampleRate := Some 44100 \<rparr>) =
     Some \<lparr> quietSections =
              [quiet_section 0 0.1, quiet_section 0.1 0.2, quiet_section 0.2 0.3,
               quiet_section 0.3 0.4, quiet_section 0.4 0.5, quiet_section 0.5 0.6,
               quiet_section 0.6 0.7, quiet_section 0.7 0.8, quiet_section 0.8 0.9],
            loudSections = [], transitions = [], repetitivePatterns = [] \<rparr>"
    using patterns_loop_silent_second transitions_loop_silent_second
    by (simp add: detectPatterns_def detectTransitions_def no_options_def Let_def ws)
  moreover have "detectPatterns (replicate 44100 (Fin 0)) no_options =
       detectPatterns (replicate 44100 (Fin 0)) (no_options \<lparr> opt_sampleRate := Some 44100 \<rparr>)"
    by (simp add: detectPatterns_def no_options_def)
  ultimately show ?thesis by simp
qed



section \<open>Errors of the orchestration\<close>

lemma analyzeSpectral_failing_fft:
  "analyzeSpectral failing_fft audioData opts = Some (Inl (JsError ''TypeError'' ''bad input''))"
  by (simp add: analyzeSpectral_def failing_fft_def Let_def)

text \<open>
  Claim C6, as the code has it. If a sub-analysis of \<open>analyzeAudio\<close> throws an error
  \<open>e\<close> (the earlier ones having returned), \<open>analyzeAudio\<close> throws a new \<open>Error\<close> whose
  message is \<open>Analysis failed: \<close> followed by the message of \<open>e\<close>; and when
  \<open>analyzeAudio\<close> returns a result, all four sub-analyses have returned and the result
  holds what they returned: there is no partial result.
\<close>

theorem analyzeAudio_failure:
  "(\<forall>e. analyzeAmplitude audioData opts = Inl e \<longrightarrow>
        analyzeAudio fft ids k now audioData opts =
          Some (Inl (JsError ''Error'' (''Analysis failed: '' @ message e))))
   \<and> (\<forall>a e. analyzeAmplitude audioData opts = Inr a
          \<and> analyzeSpectral fft audioData opts = Some (Inl e) \<longrightarrow>
        analyzeAudio fft ids k now audioData opts =
          Some (Inl (JsError ''Error'' (''Analysis failed: '' @ message e))))
   \<and> (\<forall>a s p e. analyzeAmplitude audioData opts = Inr a
          \<and> analyzeSpectral fft audioData opts = Some (Inr s)
          \<and> detectPatterns audioData opts = Some p
          \<and> detectRegions ids (Suc k) audioData opts = Some (Inl e) \<longrightarrow>
        analyzeAudio fft ids k now audioData opts =
          Some (Inl (JsError ''Error'' (''Analysis failed: '' @ message e))))
   \<and> (\<forall>r k'. analyzeAudio fft ids k now audioData opts = Some (Inr (r, k')) \<longrightarrow>
        analyzeAmplitude audioData opts = Inr (amplitude (analysis r))
        \<and> analyzeSpectral fft audioData opts = Some (Inr (spectral (analysis r)))
        \<and> detectPatterns audioData opts = Some (patterns (analysis r))
        \<and> detectRegions ids (Suc k) audioData opts = Some (Inr (regions (analysis r), k')))"
proof (intro conjI allI impI)
  fix e assume "analyzeAmplitude audioData opts = Inl e"
  then show "analyzeAudio fft ids k now audioData opts =
      Some (Inl (JsError ''Error'' (''Analysis failed: '' @ message e)))"
    by (simp add: analyzeAudio_def analysis_failed_def)
next
  fix a e assume "analyzeAmplitude audioData opts = Inr a
          \<and> analyzeSpectral fft audioData opts = Some (Inl e)"
  then show "analyzeAudio fft ids k now audioData opts =
      Some (Inl (JsError ''Error'' (''Analysis failed: '' @ message e)))"
    by (simp add: analyzeAudio_def analysis_failed_def)
next
  fix a s p e assume "analyzeAmplitude audioData opts = Inr a
          \<and> analyzeSpectral fft audioData opts = Some (Inr s)
          \<and> detectPatterns audioData opts = Some p
          \<and> detectRegions ids (Suc k) audioData opts = Some (Inl e)"
  then show "analyzeAudio fft ids k now audioData opts =
      Some (Inl (JsError ''Error'' (''Analysis failed: '' @ message e)))"
    by (simp add: analyzeAudio_def analysis_failed_def)
next
  fix r k' assume r: "analyzeAudio fft ids k now audioData opts = Some (Inr (r, k'))"
  then show "analyzeAmplitude audioData opts = Inr (amplitude (analysis r))"
    and "analyzeSpectral fft audioData opts = Some (Inr (spectral (analysis r)))"
    and "detectPatterns audioData opts = Some (patterns (analysis r))"
    and "detectRegions ids (Suc k) audioData opts = Some (Inr (regions (analysis r), k'))"
    by (auto simp: analyzeAudio_def split: sum.splits option.splits prod.splits)
qed

theorem analyzeAudio_failure_witness:
  "analyzeAudio failing_fft (\<lambda>n. n) 0 ''2026-01-01T00:00:00.000Z'' [Fin 0] no_options =
     Some (Inl (JsError ''Error'' ''Analysis failed: bad input''))"
  using analyzeAudio_failure [of "[Fin 0]" no_options failing_fft "\<lambda>n. n" 0
      "''2026-01-01T00:00:00.000Z''", THEN conjunct2, THEN conjunct1, THEN spec, THEN spec, THEN mp,
      OF conjI [OF analyzeAmplitude_silence analyzeSpectral_failing_fft]]
  by simp

text \<open>
  Claim C6 as stated fails: the error of the spectral analysis does not leave
  \<open>analyzeAudio\<close> as it is, but wrapped in a new \<open>Error\<close> with another message.
\<close>

theorem analyzeAudio_wraps_error_counterexample:
  "analyzeSpectral failing_fft [Fin 0] no_options = Some (Inl (JsError ''TypeError'' ''bad input''))
   \<and> analyzeAudio failing_fft (\<lambda>n. n) 0 ''2026-01-01T00:00:00.000Z'' [Fin 0] no_options =
       Some (Inl (JsError ''Error'' ''Analysis failed: bad input''))
   \<and> JsError ''Error'' ''Analysis failed: bad input'' \<noteq> JsError ''TypeError'' ''bad input''"
  by (simp add: analyzeAudio_def analysis_failed_def analyzeAmplitude_silence
      analyzeSpectral_failing_fft)



section \<open>Repeated calls\<close>

lemma erase_id_region_at:
  "erase_id (region_at u audioData p sr ws i) = erase_id (region_at v audioData p sr ws i)"
  by (simp add: erase_id_def region_at_def)

lemma applyProfile_loop_erase_positive:
  assumes "0 < ws" and "map erase_id (fst s1) = map erase_id (fst s2)"
  shows "erase_ids (applyProfile_loop ids1 audioData p sr ws i s1) =
         erase_ids (applyProfile_loop ids2 audioData p sr ws i s2)"
  using assms(2)
proof (induction "nat (int (length audioData) - ws - i)" arbitrary: i s1 s2 rule: less_induct)
  case less
  show ?case
  proof (cases "i < int (length audioData) - ws")
    case False
    then show ?thesis
      using less.prems by (simp add: applyProfile_loop_stop erase_ids_def)
  next
    case True
    define t1 where "t1 = (if window_matches audioData p ws i
        then (fst s1 @ [region_at (ids1 (snd s1)) audioData p sr ws i], Suc (snd s1)) else s1)"
    define t2 where "t2 = (if window_matches audioData p ws i
        then (fst s2 @ [region_at (ids2 (snd s2)) audioData p sr ws i], Suc (snd s2)) else s2)"
    have rel: "map erase_id (fst t1) = map erase_id (fst t2)"
      using less.prems erase_id_region_at [of "ids1 (snd s1)" audioData p sr ws i "ids2 (snd s2)"]
      by (simp add: t1_def t2_def)
    have "nat (int (length audioData) - ws - (i + ws)) < nat (int (length audioData) - ws - i)"
      using True assms(1) by linarith
    then have "erase_ids (applyProfile_loop ids1 audioData p sr ws (i + ws) t1) =
         erase_ids (applyProfile_loop ids2 audioData p sr ws (i + ws) t2)"
      using rel by (rule less.hyps)
    then show ?thesis
      using True by (simp add: applyProfile_loop_continue t1_def t2_def)
  qed
qed

lemma applyProfile_loop_diverges:
  assumes "ws \<le> 0" and "i \<le> 0" and "i < int (length audioData) - ws"
  shows "applyProfile_loop ids audioData p sr ws i st = None"
proof (cases "applyProfile_loop ids audioData p sr ws i st")
  case None
  then show ?thesis .
next
  case (Some res)
  then have "\<not> i < int (length audioData) - ws"
    using applyProfile_loop_nonpositive [OF Some] assms(1,2) by simp
  then show ?thesis using assms(3) by simp
qed

lemma applyProfile_erase:
  "erase_ids (applyProfile ids1 k1 audioData p sr) = erase_ids (applyProfile ids2 k2 audioData p sr)"
proof (cases "0 < profile_windowSize p sr")
  case True
  then show ?thesis
    using applyProfile_loop_erase_positive [of "profile_windowSize p sr" "([], k1)" "([], k2)"]
    by (simp add: applyProfile_def Let_def)
next
  case False
  show ?thesis
  proof (cases "0 < int (length audioData) - profile_windowSize p sr")
    case True
    then show ?thesis
      using False by (simp add: applyProfile_def Let_def applyProfile_loop_diverges)
  next
    case stop: False
    then show ?thesis
      by (simp add: applyProfile_def Let_def applyProfile_loop_stop erase_ids_def)
  qed
qed

lemma erase_ids_cases:
  assumes "erase_ids a = erase_ids b"
  obtains "a = None" "b = None"
  | e where "a = Some (Inl e)" "b = Some (Inl e)"
  | s t where "a = Some (Inr s)" "b = Some (Inr t)" "map erase_id (fst s) = map erase_id (fst t)"
proof (cases a)
  case None
  then have "b = None" using assms by (simp add: erase_ids_def)
  then show ?thesis using None that(1) by simp
next
  case (Some x)
  then obtain y where y: "b = Some y" using assms by (cases b) (simp_all add: erase_ids_def)
  have xy: "map_sum (\<lambda>e. e) (\<lambda>s. map erase_id (fst s)) x = map_sum (\<lambda>e. e) (\<lambda>s. map erase_id (fst s)) y"
    using assms Some y by (simp add: erase_ids_def)
  show ?thesis
  proof (cases x)
    case (Inl e)
    then have "y = Inl e" using xy by (cases y) simp_all
    then show ?thesis using Some y Inl that(2) by simp
  next
    case (Inr s)
    then obtain t where "y = Inr t" "map erase_id (fst s) = map erase_id (fst t)"
      using xy by (cases y) simp_all
    then show ?thesis using Some y Inr that(3) by simp
  qed
qed

lemma detectRegions_loop_erase:
  "map erase_id (fst s1) = map erase_id (fst s2) \<Longrightarrow>
   erase_ids (detectRegions_loop ids1 audioData sr ps s1) =
   erase_ids (detectRegions_loop ids2 audioData sr ps s2)"
proof (induction ps arbitrary: s1 s2)
  case Nil
  then show ?case by (simp add: erase_ids_def)
next
  case (Cons p ps)
  have "erase_ids (applyProfile ids1 (snd s1) audioData p sr) =
        erase_ids (applyProfile ids2 (snd s2) audioData p sr)"
    by (rule applyProfile_erase)
  then show ?case
  proof (cases rule: erase_ids_cases)
    case 1
    then show ?thesis by (simp add: erase_ids_def)
  next
    case (2 e)
    then show ?thesis by (simp add: erase_ids_def)
  next
    case (3 s t)
    have "map erase_id (fst (fst s1 @ fst s, snd s)) = map erase_id (fst (fst s2 @ fst t, snd t))"
      using Cons.prems 3(3) by simp
    then have "erase_ids (detectRegions_loop ids1 audioData sr ps (fst s1 @ fst s, snd s)) =
        erase_ids (detectRegions_loop ids2 audioData sr ps (fst s2 @ fst t, snd t))"
      by (rule Cons.IH)
    then show ?thesis using 3(1,2) by (simp add: case_prod_beta)
  qed
qed

lemma detectRegions_erase:
  "erase_ids (detectRegions ids1 k1 audioData opts) = erase_ids (detectRegions ids2 k2 audioData opts)"
  unfolding detectRegions_def by (rule detectRegions_loop_erase) simp


text \<open>
  Claim C8, as the code has it. Two calls of \<open>analyzeAudio\<close> on the same buffer and
  options, whatever the states of the identifier generator and of the clock, end the same
  way: both do not return, or both throw the same error, or both return results with the
  same sample count, amplitude, spectral and pattern components and with the same regions
  up to the identifier of each region.
\<close>

theorem analyzeAudio_repeatable:
  "((analyzeAudio fft ids1 k1 now1 audioData opts = None) =
      (analyzeAudio fft ids2 k2 now2 audioData opts = None))
   \<and> (\<forall>e. (analyzeAudio fft ids1 k1 now1 audioData opts = Some (Inl e)) =
            (analyzeAudio fft ids2 k2 now2 audioData opts = Some (Inl e)))
   \<and> (\<forall>r1 j1. analyzeAudio fft ids1 k1 now1 audioData opts = Some (Inr (r1, j1)) \<longrightarrow>
        (\<exists>r2 j2. analyzeAudio fft ids2 k2 now2 audioData opts = Some (Inr (r2, j2))
           \<and> sampleCount r1 = sampleCount r2
           \<and> amplitude (analysis r1) = amplitude (analysis r2)
           \<and> spectral (analysis r1) = spectral (analysis r2)
           \<and> patterns (analysis r1) = patterns (analysis r2)
           \<and> map erase_id (regions (analysis r1)) = map erase_id (regions (analysis r2))))"
proof (cases "analyzeAmplitude audioData opts")
  case (Inl e)
  then show ?thesis by (simp add: analyzeAudio_def)
next
  case a: (Inr a)
  show ?thesis
  proof (cases "analyzeSpectral fft audioData opts")
    case None
    then show ?thesis using a by (simp add: analyzeAudio_def)
  next
    case (Some x)
    show ?thesis
    proof (cases x)
      case (Inl e)
      then show ?thesis using a Some by (simp add: analyzeAudio_def)
    next
      case s: (Inr s)
      show ?thesis
      proof (cases "detectPatterns audioData opts")
        case None
        then show ?thesis using a Some s by (simp add: analyzeAudio_def)
      next
        case p: (Some p)
        have "erase_ids (detectRegions ids1 (Suc k1) audioData opts) =
              erase_ids (detectRegions ids2 (Suc k2) audioData opts)"
          by (rule detectRegions_erase)
        then show ?thesis
        proof (cases rule: erase_ids_cases)
          case 1
          then show ?thesis using a Some s p by (simp add: analyzeAudio_def)
        next
          case (2 e)
          then show ?thesis using a Some s p by (simp add: analyzeAudio_def)
        next
          case (3 u v)
          then show ?thesis using a Some s p
            by (cases u; cases v) (simp add: analyzeAudio_def)
        qed
      qed
    qed
  qed
qed



section \<open>Two calls on a silent buffer\<close>

lemma calculateBandEnergy_loop_continue:
  "js_lt i stop \<Longrightarrow>
   calculateBandEnergy_loop magnitudes stop i energy =
     calculateBandEnergy_loop magnitudes stop (js_add i (Fin 1))
       (js_add energy (js_mul (js_index magnitudes i) (js_index magnitudes i)))"
  by (subst calculateBandEnergy_loop.simps) simp

lemma calculateBandEnergy_loop_stop:
  "\<not> js_lt i stop \<Longrightarrow> calculateBandEnergy_loop magnitudes stop i energy = Some energy"
  by (subst calculateBandEnergy_loop.simps) simp

lemma run_amplitude: "analyzeAmplitude silent_buffer run_options = Inr silent_amplitude"
  by (simp add: analyzeAmplitude_def silent_buffer_def silent_amplitude_def Let_def)

lemma run_window: "applyWindow (slice silent_buffer 0 4) = silent_buffer"
  by (simp add: applyWindow_def slice_def silent_buffer_def Let_def)

lemma run_dft: "dft silent_buffer = Inr [(Fin 0, Fin 0), (Fin 0, Fin 0), (Fin 0, Fin 0), (Fin 0, Fin 0)]"
  by (simp add: dft_def silent_buffer_def)


lemma run_spectral: "analyzeSpectral dft silent_buffer run_options = Some (Inr silent_spectral)"
proof -
  have b: "\<lfloor>(1000 :: real) / 44100\<rfloor> = 0" "\<lfloor>(16000 :: real) / 44100\<rfloor> = 0" by simp_all
  have m: "findDominantFrequencies [Fin 0, Fin 0, Fin 0, Fin 0] 44100 4 = []"
    by (simp add: findDominantFrequencies_eval)
  show ?thesis
    using b
    by (simp add: analyzeSpectral_def run_options_def js_trunc_def run_window run_dft Let_def
        calculateBandEnergy_def calculateBandEnergy_loop_continue calculateBandEnergy_loop_stop
        m silent_spectral_def)
qed

lemma run_patterns:
  "detectPatterns silent_buffer run_options =
     Some \<lparr> quietSections = [], loudSections = [], transitions = [], repetitivePatterns = [] \<rparr>"
proof -
  have ws: "\<lfloor>(1 / 10 :: real) * 44100\<rfloor> = 4410" by simp
  show ?thesis
    by (simp add: detectPatterns_def detectTransitions_def run_options_def Let_def ws
        silent_buffer_def detectPatterns_loop_stop detectTransitions_loop_stop)
qed

lemma run_windowSize: "profile_windowSize short_quiet_profile 44100 = 2"
proof -
  have "\<lfloor>(441 :: real) / 200\<rfloor> = 2" by simp
  then show ?thesis
    by (simp add: profile_windowSize_def short_quiet_profile_def quiet_profile_def)
qed

lemma run_regions:
  "detectRegions ids k silent_buffer run_options = Some (Inr ([run_region (ids k)], Suc k))"
proof -
  have a: "analyzeAmplitude [Fin 0, Fin 0] no_options = Inr silent_amplitude"
    by (simp add: analyzeAmplitude_def silent_amplitude_def Let_def)
  have p: "profile_type short_quiet_profile = Quiet"
    "param_maxAmplitude (parameters short_quiet_profile) = Some 0.1"
    "profile_id short_quiet_profile = ''quiet-profile''"
    "rms silent_amplitude = Fin 0"
    by (simp_all add: short_quiet_profile_def quiet_profile_def silent_amplitude_def)
  have "applyProfile ids k silent_buffer short_quiet_profile 44100 =
      Some (Inr ([run_region (ids k)], Suc k))"
    by (simp add: applyProfile_def run_windowSize Let_def silent_buffer_def
        applyProfile_loop_continue applyProfile_loop_stop window_matches_def window_analysis_def
        region_at_def profile_matches_def calculateConfidence_def slice_def a p run_region_def)
  then show ?thesis
    by (simp add: detectRegions_def run_options_def)
qed

lemma run_analyzeAudio:
  "analyzeAudio dft ids k now silent_buffer run_options =
     Some (Inr (run_result (ids k) (ids (Suc k)) now, Suc (Suc k)))"
  by (simp add: analyzeAudio_def run_amplitude run_spectral run_patterns run_regions
      run_result_def) (simp add: silent_buffer_def)

theorem analyzeAudio_repeatable_witness:
  "\<exists>r1 j1 r2 j2.
      analyzeAudio dft (\<lambda>n. n) 0 ''2026-01-01T00:00:00.000Z'' silent_buffer run_options
        = Some (Inr (r1, j1))
    \<and> analyzeAudio dft (\<lambda>n. n) 2 ''2026-01-01T00:00:01.000Z'' silent_buffer run_options
        = Some (Inr (r2, j2))
    \<and> amplitude (analysis r1) = amplitude (analysis r2)
    \<and> spectral (analysis r1) = spectral (analysis r2)
    \<and> patterns (analysis r1) = patterns (analysis r2)
    \<and> map erase_id (regions (analysis r1)) = map erase_id (regions (analysis r2))
    \<and> length (regions (analysis r1)) = 1"
proof -
  let ?t1 = "''2026-01-01T00:00:00.000Z''" and ?t2 = "''2026-01-01T00:00:01.000Z''"
  have r1: "analyzeAudio dft (\<lambda>n. n) 0 ?t1 silent_buffer run_options =
      Some (Inr (run_result 0 1 ?t1, 2))"
    using run_analyzeAudio [of "\<lambda>n. n" 0 ?t1] by simp
  obtain r2 j2 where r2:
    "analyzeAudio dft (\<lambda>n. n) 2 ?t2 silent_buffer run_options = Some (Inr (r2, j2))"
    "amplitude (analysis (run_result 0 1 ?t1)) = amplitude (analysis r2)"
    "spectral (analysis (run_result 0 1 ?t1)) = spectral (analysis r2)"
    "patterns (analysis (run_result 0 1 ?t1)) = patterns (analysis r2)"
    "map erase_id (regions (analysis (run_result 0 1 ?t1))) = map erase_id (regions (analysis r2))"
    using analyzeAudio_repeatable
      [of dft "\<lambda>n. n" 0 ?t1 silent_buffer run_options "\<lambda>n. n" 2 ?t2,
        THEN conjunct2, THEN conjunct2, THEN spec, THEN spec, THEN mp, OF r1]
    by (elim exE conjE)
  have "length (regions (analysis (run_result 0 1 ?t1))) = 1"
    by (simp add: run_result_def)
  with r1 r2 show ?thesis by (intro exI conjI)
qed

text \<open>
  Claim C8 as stated fails: each region gets its own fresh identifier, so the regions of
  the second call differ from those of the first. The second call starts where the first
  one left the generator.
\<close>

theorem analyzeAudio_region_ids_counterexample:
  "analyzeAudio dft (\<lambda>n. n) 0 ''2026-01-01T00:00:00.000Z'' silent_buffer run_options
     = Some (Inr (run_result 0 1 ''2026-01-01T00:00:00.000Z'', 2))
   \<and> analyzeAudio dft (\<lambda>n. n) 2 ''2026-01-01T00:00:01.000Z'' silent_buffer run_options
     = Some (Inr (run_result 2 3 ''2026-01-01T00:00:01.000Z'', 4))
   \<and> regions (analysis (run_result 0 1 ''2026-01-01T00:00:00.000Z''))
       \<noteq> regions (analysis (run_result 2 3 ''2026-01-01T00:00:01.000Z''))"
  by (simp add: run_analyzeAudio run_result_def run_region_def)

end
